theory Spec2Isabelle
  imports Main "HOL-Library.Sublist" "HOL-Library.List_Lexorder" "HOL-Library.Char_ord"
    "HOL-Library.AList"
begin

section \<open>Remote transport client: command execution (services/ssh.ts)\<close>

text \<open>
  \<open>SSHService.exec\<close> first checks that a client object exists, then asks the client to
  start the command. The client either reports a start error through the callback, or
  hands over a stream; the stream collects stdout and stderr and finally closes with the
  exit code of the remote process. These three ways a call can go are the constructors of
  \<open>exec_event\<close>; the promise is modelled as a sum, \<open>Inl\<close> for a rejection (or the
  synchronous throw) with its message, \<open>Inr\<close> for the resolved string.
\<close>

datatype exec_event =
    NoClient
  | StartError string
  | Closed int string string

fun exec :: "exec_event \<Rightarrow> string + string" where
  "exec NoClient = Inl ''SSH client not connected''"
| "exec (StartError e) = Inl e"
| "exec (Closed code stdout stderr) =
     (if code \<noteq> 0 \<and> stderr \<noteq> [] then Inl stderr else Inr stdout)"

section \<open>Data model (types/config.types.ts)\<close>

text \<open>
  A location is tagged \<open>local\<close> or \<open>ssh\<close>, carries a path and, optionally, the
  endpoint of the remote host. The type of the path is a parameter: the session cache
  and the script generator only print the path and take it as a string; the file
  operations take it as the list of its segments. Ports and retention counts are JavaScript numbers that the
  configuration gives as non-negative integers; they are natural numbers here, and
  \<open>string_of_nat\<close> is the decimal text a template literal produces for them.
\<close>

record SSHConfig =
  host :: string
  port :: nat
  username :: string
  password :: "string option"
  privateKey :: "string option"

datatype location_type = Local | SSH

record 'p LocationConfig =
  type :: location_type
  path :: 'p
  ssh :: "SSHConfig option"

definition digit_char :: "nat \<Rightarrow> char" where
  "digit_char d = char_of (of_char (CHR ''0'') + d)"

fun string_of_nat :: "nat \<Rightarrow> string" where
  "string_of_nat n =
     (if n < 10 then [digit_char n] else string_of_nat (n div 10) @ [digit_char (n mod 10)])"

declare string_of_nat.simps [simp del]

text \<open>The value of a decimal digit; \<open>nat_of_string\<close> reads a decimal numeral.\<close>

definition digit_value :: "char \<Rightarrow> nat" where
  "digit_value c = of_char c - of_char (CHR ''0'')"

definition nat_of_string :: "string \<Rightarrow> nat" where
  "nat_of_string s = foldl (\<lambda>acc c. 10 * acc + digit_value c) 0 s"

section \<open>Session cache (services/file-ops.ts, ensureSSHConnection)\<close>

text \<open>
  \<open>FileOpsService\<close> owns a \<open>Map\<close> from the key \<open>host:port\<close> to the session object. A session
  object is identified by the order of its creation: \<open>created\<close> counts the \<open>SSHService\<close>
  objects made so far, and the next one gets that number. \<open>opened\<close> records, in order, the
  key of every \<open>connect\<close> that succeeded; nothing reads it, it is the trace the properties
  speak about. Whether a \<open>connect\<close> succeeds is decided by the network: the caller of the
  model passes the outcome, \<open>None\<close> for success or the error's message.
\<close>

record FileOpsService =
  sshConnections :: "(string \<times> nat) list"
  created :: nat
  opened :: "string list"

definition new_FileOpsService :: FileOpsService where
  "new_FileOpsService = \<lparr>sshConnections = [], created = 0, opened = []\<rparr>"

definition connection_key :: "SSHConfig \<Rightarrow> string" where
  "connection_key c = host c @ '':'' @ string_of_nat (port c)"

definition ensureSSHConnection ::
  "string option \<Rightarrow> string LocationConfig \<Rightarrow> FileOpsService \<Rightarrow> FileOpsService \<times> (string + nat option)" where
  "ensureSSHConnection connect_result location this =
     (case ssh location of
        None \<Rightarrow> (this, Inr None)
      | Some cfg \<Rightarrow>
          if type location \<noteq> SSH then (this, Inr None)
          else
            let key = connection_key cfg in
            (case map_of (sshConnections this) key of
               Some s \<Rightarrow> (this, Inr (Some s))
             | None \<Rightarrow>
                 let s = created this; this1 = this\<lparr>created := Suc s\<rparr> in
                 (case connect_result of
                    Some e \<Rightarrow> (this1, Inl e)
                  | None \<Rightarrow>
                      (this1\<lparr>sshConnections := sshConnections this1 @ [(key, s)],
                             opened := opened this1 @ [key]\<rparr>,
                       Inr (Some s)))))"

text \<open>
  A run is a sequence of calls on one \<open>FileOpsService\<close>, each with the location asked for
  and the outcome its \<open>connect\<close> would have; a call that throws leaves the service as it
  is at that moment and the run goes on with the next call.
\<close>

fun ensure_calls :: "(string option \<times> string LocationConfig) list \<Rightarrow> FileOpsService \<Rightarrow> FileOpsService" where
  "ensure_calls [] this = this"
| "ensure_calls ((r, l) # cs) this = ensure_calls cs (fst (ensureSSHConnection r l this))"

text \<open>
  Every key in the trace of successful connects is a key of the cache, and no key occurs
  twice: a connect is attempted only for a key the cache does not hold, and its success
  puts the key into the cache.
\<close>

definition cache_inv :: "FileOpsService \<Rightarrow> bool" where
  "cache_inv this =
     (distinct (opened this) \<and> set (opened this) \<subseteq> fst ` set (sshConnections this))"

text \<open>
  Three locations of one profile: staging and destination on the same host and port under
  different user names, and a local source.
\<close>

definition staging_web01 :: "string LocationConfig" where
  "staging_web01 =
     \<lparr>type = SSH, path = ''C:/Users/deploy/staging'',
      ssh = Some \<lparr>host = ''web01'', port = 22, username = ''deploy'', password = None,
                  privateKey = Some ''C:/keys/deploy''\<rparr>\<rparr>"

definition destination_web01 :: "string LocationConfig" where
  "destination_web01 =
     \<lparr>type = SSH, path = ''C:/inetpub/app'',
      ssh = Some \<lparr>host = ''web01'', port = 22, username = ''admin'', password = Some ''pw'',
                  privateKey = None\<rparr>\<rparr>"

definition local_source :: "string LocationConfig" where
  "local_source = \<lparr>type = Local, path = ''C:/work/app'', ssh = None\<rparr>"

text \<open>
  The sessions of the cache: no key twice, no session under two keys, and every session
  one of those created so far.
\<close>

definition sessions_inv :: "FileOpsService \<Rightarrow> bool" where
  "sessions_inv this =
     (distinct (map fst (sshConnections this)) \<and> distinct (map snd (sshConnections this))
      \<and> (\<forall>s \<in> snd ` set (sshConnections this). s < created this))"

text \<open>A third remote location, on another host and port.\<close>

definition database_db01 :: "string LocationConfig" where
  "database_db01 =
     \<lparr>type = SSH, path = ''/srv/db'',
      ssh = Some \<lparr>host = ''db01'', port = 2222, username = ''deploy'', password = None,
                  privateKey = Some ''C:/keys/deploy''\<rparr>\<rparr>"

section \<open>Deployment orchestrator (commands/deploy.ts)\<close>

text \<open>
  \<open>deployCommand\<close> awaits a fixed sequence of operations of \<open>FileOpsService\<close>, the file
  system, the child process and the logger. Each one either completes (with a value) or
  throws; \<open>deploy_env\<close> holds, for one run, the outcome of each awaited operation in the
  order of the source. An outcome of type \<open>string option\<close> is \<open>None\<close> when the operation
  completes and \<open>Some message\<close> when it throws; an operation with a value has a sum. The
  clock is read at the start and at the end. Spinner and console output are not modelled.
\<close>

record DeployResult =
  success :: bool
  startTime :: nat
  endTime :: nat
  filesDeployed :: nat
  errors :: "string list"

record deploy_env =
  clock_start :: nat
  clock_end :: nat
  ensureDir_temp :: "string option"
  copyToTemp :: "string + nat"
  compressFiles :: "string option"
  getFileSize_compress :: "string option"
  ensureDir_staging :: "string option"
  deleteContents_staging :: "string option"
  getFileSize_transfer :: "string option"
  transferFile :: "string option"
  decompressFilesRemote :: "string option"
  uploadWindowsBats :: "string option"
  execute_update :: "string option"
  cleanup :: "string option"
  closeAllConnections :: "string option"
  logger_save :: "string option"

text \<open>
  The body of a \<open>try\<close> block is a chain of awaits: the first that throws ends the chain.
  \<open>and_then\<close> runs the rest only after a completed operation.
\<close>

definition and_then :: "string option \<Rightarrow> (string + 'a) \<Rightarrow> string + 'a" where
  "and_then r rest = (case r of Some m \<Rightarrow> Inl m | None \<Rightarrow> rest)"

text \<open>
  \<open>catch (err) { ...; errors.push(message); throw err; }\<close>: the handler of every stage
  appends the message to \<open>errors\<close> and throws the same error again.
\<close>

definition push_and_rethrow :: "string list \<Rightarrow> (string + 'a) \<Rightarrow> string list \<times> (string + 'a)" where
  "push_and_rethrow errs r = (case r of Inl m \<Rightarrow> (errs @ [m], Inl m) | Inr v \<Rightarrow> (errs, Inr v))"

definition step_compress :: "deploy_env \<Rightarrow> string list \<Rightarrow> string list \<times> (string + unit)" where
  "step_compress env errs =
     push_and_rethrow errs
       (case copyToTemp env of
          Inl m \<Rightarrow> Inl m
        | Inr sourceFiles \<Rightarrow>
            and_then (compressFiles env) (and_then (getFileSize_compress env) (Inr ())))"

definition step_transfer :: "deploy_env \<Rightarrow> string list \<Rightarrow> string list \<times> (string + unit)" where
  "step_transfer env errs =
     push_and_rethrow errs
       (and_then (ensureDir_staging env)
         (and_then (deleteContents_staging env)
           (and_then (getFileSize_transfer env)
             (and_then (transferFile env) (Inr ())))))"

definition step_decompress :: "deploy_env \<Rightarrow> string list \<Rightarrow> string list \<times> (string + unit)" where
  "step_decompress env errs = push_and_rethrow errs (and_then (decompressFilesRemote env) (Inr ()))"

text \<open>
  The script stage nests two handlers: the inner one, around the execution of
  \<open>update.bat\<close>, pushes and rethrows; the outer one, around upload and execution, pushes
  and rethrows what reaches it, the inner handler's error included.
\<close>

definition step_bats :: "deploy_env \<Rightarrow> string list \<Rightarrow> string list \<times> (string + unit)" where
  "step_bats env errs =
     (case uploadWindowsBats env of
        Some m \<Rightarrow> push_and_rethrow errs (Inl m)
      | None \<Rightarrow>
          (case push_and_rethrow errs (and_then (execute_update env) (Inr ())) of
             (errs1, r) \<Rightarrow> push_and_rethrow errs1 r))"

text \<open>The cleanup stage's handler only warns: the stage never throws and pushes nothing.\<close>

definition step_cleanup :: "deploy_env \<Rightarrow> string list \<Rightarrow> string list \<times> (string + unit)" where
  "step_cleanup env errs =
     (case cleanup env of Some m \<Rightarrow> (errs, Inr ()) | None \<Rightarrow> (errs, Inr ()))"

text \<open>A stage runs only when everything before it completed.\<close>

definition then_step ::
  "string list \<times> (string + unit) \<Rightarrow> (string list \<Rightarrow> string list \<times> (string + unit))
   \<Rightarrow> string list \<times> (string + unit)" where
  "then_step r f = (case r of (errs, Inl m) \<Rightarrow> (errs, Inl m) | (errs, Inr _) \<Rightarrow> f errs)"

definition deploy_try_block :: "deploy_env \<Rightarrow> string list \<times> (string + unit)" where
  "deploy_try_block env =
     foldl then_step ([], and_then (ensureDir_temp env) (Inr ()))
       [step_compress env, step_transfer env, step_decompress env, step_bats env,
        step_cleanup env]"

text \<open>
  \<open>try { ... } finally { await fileOps.closeAllConnections(); }\<close> has no \<open>catch\<close>: after the
  \<open>finally\<close> block an error of the \<open>try\<close> block goes on to the caller, unless the
  \<open>finally\<close> block itself throws, which then is what the caller sees. Only a run whose
  \<open>try\<close> block completed reaches the statements that build and return the result.
\<close>

definition deployCommand :: "deploy_env \<Rightarrow> string + DeployResult" where
  "deployCommand env =
     (let filesDeployed0 = 0 in
      case deploy_try_block env of (errs, r) \<Rightarrow>
        and_then (closeAllConnections env)
          (case r of
             Inl m \<Rightarrow> Inl m
           | Inr _ \<Rightarrow>
               and_then (logger_save env)
                 (Inr \<lparr>success = (length errs = 0), startTime = clock_start env,
                       endTime = clock_end env, filesDeployed = filesDeployed0,
                       errors = errs\<rparr>)))"

text \<open>
  A run in which every operation completes and the staging copy reports 42 files, and the
  same run with a selector that names a folder missing at the source, so that
  \<open>copyToTemp\<close> throws.
\<close>

definition completed_run :: deploy_env where
  "completed_run =
     \<lparr>clock_start = 100, clock_end = 160, ensureDir_temp = None, copyToTemp = Inr 42,
      compressFiles = None, getFileSize_compress = None, ensureDir_staging = None,
      deleteContents_staging = None, getFileSize_transfer = None, transferFile = None,
      decompressFilesRemote = None, uploadWindowsBats = None, execute_update = None,
      cleanup = None, closeAllConnections = None, logger_save = None\<rparr>"

definition missing_folder_run :: deploy_env where
  "missing_folder_run =
     completed_run\<lparr>copyToTemp := Inl ''Source folder does not exist: /srv/app/bin''\<rparr>"

section \<open>Restore orchestrator (commands/restore.ts)\<close>

text \<open>
  \<open>restoreCommand\<close> has the shape of \<open>deployCommand\<close>: two stages whose handlers push and
  rethrow, a last stage whose handler only warns, all inside a \<open>try\<close> with a \<open>finally\<close>
  and no \<open>catch\<close>.
\<close>

record restore_env =
  restore_clock_start :: nat
  restore_clock_end :: nat
  uploadAndExecuteRestoreBat :: "string option"
  execute_restore :: "string option"
  deleteRestoreBat :: "string option"
  restore_closeAllConnections :: "string option"
  restore_logger_save :: "string option"

definition step_upload_restore :: "restore_env \<Rightarrow> string list \<Rightarrow> string list \<times> (string + unit)" where
  "step_upload_restore env errs =
     push_and_rethrow errs (and_then (uploadAndExecuteRestoreBat env) (Inr ()))"

definition step_execute_restore :: "restore_env \<Rightarrow> string list \<Rightarrow> string list \<times> (string + unit)" where
  "step_execute_restore env errs = push_and_rethrow errs (and_then (execute_restore env) (Inr ()))"

definition step_delete_restore :: "restore_env \<Rightarrow> string list \<Rightarrow> string list \<times> (string + unit)" where
  "step_delete_restore env errs =
     (case deleteRestoreBat env of Some m \<Rightarrow> (errs, Inr ()) | None \<Rightarrow> (errs, Inr ()))"

definition restore_try_block :: "restore_env \<Rightarrow> string list \<times> (string + unit)" where
  "restore_try_block env =
     foldl then_step ([], Inr ())
       [step_upload_restore env, step_execute_restore env, step_delete_restore env]"

definition restoreCommand :: "restore_env \<Rightarrow> string + DeployResult" where
  "restoreCommand env =
     (case restore_try_block env of (errs, r) \<Rightarrow>
        and_then (restore_closeAllConnections env)
          (case r of
             Inl m \<Rightarrow> Inl m
           | Inr _ \<Rightarrow>
               and_then (restore_logger_save env)
                 (Inr \<lparr>success = (length errs = 0), startTime = restore_clock_start env,
                       endTime = restore_clock_end env, filesDeployed = 0,
                       errors = errs\<rparr>)))"

section \<open>Backup rotation (services/backup.ts)\<close>

text \<open>
  The backup root is seen through its listing, the names \<open>listFiles\<close> returns.
  \<open>getBackupsList\<close> keeps the names that start with \<open>backup-\<close>. Deleting an entry
  (\<open>fs.remove\<close> locally, \<open>deleteDir\<close> over ssh) either throws, which ends the loop, or
  takes the name out of the listing; \<open>rm\<close> gives the outcome for each name.
\<close>

definition getBackupsList :: "string list \<Rightarrow> string list" where
  "getBackupsList files = filter (prefix ''backup-'') files"

fun delete_each ::
  "(string \<Rightarrow> string option) \<Rightarrow> string list \<Rightarrow> string list \<Rightarrow> string list \<times> (string + unit)" where
  "delete_each rm [] dir = (dir, Inr ())"
| "delete_each rm (backup # rest) dir =
     (case rm backup of
        Some e \<Rightarrow> (dir, Inl e)
      | None \<Rightarrow> delete_each rm rest (removeAll backup dir))"

text \<open>
  \<open>backups.sort((a, b) => a.localeCompare(b))\<close>. What \<open>localeCompare\<close> answers depends
  on the locale of the process; it is a parameter here. \<open>Array.prototype.sort\<close> is stable,
  and for a comparison function that is consistent (total and transitive in its answers
  \<open>\<le> 0\<close>) its result is the one stable arrangement in the order of the function;
  \<open>sort_by\<close> computes it by insertion.
\<close>

fun insert_by :: "(string \<Rightarrow> string \<Rightarrow> int) \<Rightarrow> string \<Rightarrow> string list \<Rightarrow> string list" where
  "insert_by compareFn a [] = [a]"
| "insert_by compareFn a (b # bs) =
     (if compareFn a b \<le> 0 then a # b # bs else b # insert_by compareFn a bs)"

definition sort_by :: "(string \<Rightarrow> string \<Rightarrow> int) \<Rightarrow> string list \<Rightarrow> string list" where
  "sort_by compareFn xs = foldr (insert_by compareFn) xs []"

definition rotateBackups ::
  "(string \<Rightarrow> string \<Rightarrow> int) \<Rightarrow> (string \<Rightarrow> string option) \<Rightarrow> nat \<Rightarrow> string list
   \<Rightarrow> string list \<times> (string + unit)" where
  "rotateBackups localeCompare rm maxBackups dir =
     (let backups = getBackupsList dir in
      if length backups \<le> maxBackups then (dir, Inr ())
      else
        let sorted = sort_by localeCompare backups;
            toDelete = take (length backups - maxBackups) sorted
        in delete_each rm toDelete dir)"

definition consistent :: "(string \<Rightarrow> string \<Rightarrow> int) \<Rightarrow> bool" where
  "consistent compareFn =
     ((\<forall>a b. compareFn a b \<le> 0 \<or> compareFn b a \<le> 0)
      \<and> (\<forall>a b c. compareFn a b \<le> 0 \<and> compareFn b c \<le> 0 \<longrightarrow> compareFn a c \<le> 0))"

text \<open>
  Two comparison functions for the examples: by code units, and by code units after
  lower-casing the letters A to Z, which puts \<open>a\<close> before \<open>B\<close> as the collation of a
  locale does.
\<close>

definition code_unit_compare :: "string \<Rightarrow> string \<Rightarrow> int" where
  "code_unit_compare a b = (if a < b then - 1 else if a = b then 0 else 1)"

definition lower_case :: "char \<Rightarrow> char" where
  "lower_case c =
     (let n = (of_char c :: nat) in if 65 \<le> n \<and> n \<le> 90 then char_of (n + 32) else c)"

definition caseless_compare :: "string \<Rightarrow> string \<Rightarrow> int" where
  "caseless_compare a b = code_unit_compare (map lower_case a) (map lower_case b)"

text \<open>A backup root with five backups and one other file.\<close>

definition five_backups :: "string list" where
  "five_backups =
     [''backup-2024-03-01T10-00-00-000Z'', ''readme.txt'', ''backup-2024-01-01T10-00-00-000Z'',
      ''backup-2024-05-01T10-00-00-000Z'', ''backup-2024-02-01T10-00-00-000Z'',
      ''backup-2024-04-01T10-00-00-000Z'']"

section \<open>Script generator (services/file-ops.ts)\<close>

text \<open>
  A source selection is a list of folder specifications: a folder name, for the whole
  folder, or an object whose keys are folder names and whose values are the files to take
  from that folder. The object is given by its entries in the order \<open>Object.entries\<close>
  yields them. \<open>null\<close> and \<open>undefined\<close> are \<open>None\<close>.
\<close>

datatype folder_spec = WholeFolder string | FolderFiles "(string \<times> string list) list"

record BackupConfig =
  backup_path :: string
  maxBackups :: "nat option"

text \<open>
  A string literal of the theory cannot hold a backslash: \<open>backslash\<close> is the one-character
  string that the source writes \<^verbatim>\<open>'\\'\<close>. \<open>crlf\<close> is \<^verbatim>\<open>'\r\n'\<close>.
\<close>

definition backslash :: string where
  "backslash = [CHR 0x5C]"

definition crlf :: string where
  "crlf = [CHR 0x0D, CHR 0x0A]"

text \<open>\<open>lines.join(sep)\<close>\<close>

fun join :: "string \<Rightarrow> string list \<Rightarrow> string" where
  "join sep [] = []"
| "join sep [l] = l"
| "join sep (l # m # ls) = l @ sep @ join sep (m # ls)"

text \<open>\<open>s.replace(/\//g, '\\')\<close>: every slash becomes a backslash.\<close>

definition slashes_to_backslashes :: "string \<Rightarrow> string" where
  "slashes_to_backslashes s = concat (map (\<lambda>c. if c = CHR ''/'' then backslash else [c]) s)"

text \<open>
  \<open>generateCopyCommands\<close>: for a whole folder one \<open>xcopy\<close> with its check of the error
  level; for an object, per entry one \<open>mkdir\<close> of the destination folder and per file one
  \<open>copy\<close> with its check; with no selection, two loops over the staging directory.
\<close>

definition whole_folder_commands :: "string \<Rightarrow> string \<Rightarrow> string \<Rightarrow> string list" where
  \<open>whole_folder_commands sourceDir destDir folderSpec =
     [''xcopy "'' @ sourceDir @ backslash @ folderSpec @ backslash @ ''*" "'' @ destDir @ backslash @ folderSpec @ backslash @ ''" /E /I /Y /Q'',
      ''if !errorlevel! equ 0 ('',
      ''echo Folder copied: '' @ folderSpec,
      '') else ('',
      ''echo ERROR: Failed to copy folder '' @ folderSpec,
      ''goto :error'',
      '')'']\<close>

definition file_commands :: "string \<Rightarrow> string \<Rightarrow> string \<Rightarrow> string \<Rightarrow> string list" where
  \<open>file_commands sourceDir destDir folderName file =
     [''copy /y "'' @ sourceDir @ backslash @ folderName @ backslash @ file @ ''" "'' @ destDir @ backslash @ folderName @ backslash @ file @ ''"'',
      ''if !errorlevel! equ 0 ('',
      ''echo File copied: '' @ folderName @ backslash @ file,
      '') else ('',
      ''echo ERROR: Failed to copy '' @ folderName @ backslash @ file,
      ''goto :error'',
      '')'']\<close>

definition entry_commands :: "string \<Rightarrow> string \<Rightarrow> string \<times> string list \<Rightarrow> string list" where
  \<open>entry_commands sourceDir destDir entry =
     (case entry of (folderName, files) \<Rightarrow>
        [''if not exist "'' @ destDir @ backslash @ folderName @ ''" mkdir "'' @ destDir @ backslash @ folderName @ ''"'']
        @ concat (map (file_commands sourceDir destDir folderName) files))\<close>

fun folder_spec_commands :: "string \<Rightarrow> string \<Rightarrow> folder_spec \<Rightarrow> string list" where
  "folder_spec_commands sourceDir destDir (WholeFolder folderSpec) =
     whole_folder_commands sourceDir destDir folderSpec"
| "folder_spec_commands sourceDir destDir (FolderFiles entries) =
     concat (map (entry_commands sourceDir destDir) entries)"

definition copy_everything_commands :: "string \<Rightarrow> string \<Rightarrow> string list" where
  \<open>copy_everything_commands sourceDir destDir =
     [''for /d %%D in ("'' @ sourceDir @ backslash @ ''*") do ('',
      ''xcopy "%%D'' @ backslash @ ''*" "'' @ destDir @ backslash @ ''%%~nxD'' @ backslash @ ''" /E /I /Y /Q'',
      '')'',
      ''for %%F in ("'' @ sourceDir @ backslash @ ''*") do ('',
      ''if /i not "%%~xF"==".bat" copy /y "%%F" "'' @ destDir @ backslash @ ''"'',
      '')'']\<close>

definition generateCopyCommands ::
  "string \<Rightarrow> string \<Rightarrow> folder_spec list option \<Rightarrow> string list" where
  "generateCopyCommands sourceDir destDir sourceFolders =
     (case sourceFolders of
        None \<Rightarrow> copy_everything_commands sourceDir destDir
      | Some [] \<Rightarrow> copy_everything_commands sourceDir destDir
      | Some (f # fs) \<Rightarrow> concat (map (folder_spec_commands sourceDir destDir) (f # fs)))"

text \<open>
  \<open>generateUpdateBat\<close>. The array \<open>lines\<close> of the source is one literal: the elements
  before the spread of \<open>generateCopyCommands\<close> are \<open>update_head\<close>, those after it
  \<open>update_tail\<close>, and \<open>update_lines\<close> is the array. \<open>path.join\<close> of Node is a parameter,
  \<open>path_join\<close>; the model applies the source's replacement of slashes to what it returns.
\<close>

definition update_head :: "string \<Rightarrow> string \<Rightarrow> string \<Rightarrow> string \<Rightarrow> nat \<Rightarrow> string list" where
  \<open>update_head sourceDir destDir backupDir logfile maxBackups0 =
    [
     ''@echo off'',
     ''setlocal enabledelayedexpansion'',
     ''set "source_dir='' @ sourceDir @ ''"'',
     ''set "dest_dir='' @ destDir @ ''"'',
     ''set "backup_dir='' @ backupDir @ ''"'',
     ''set "logfile='' @ logfile @ ''"'',
     ''set "max_backups='' @ string_of_nat maxBackups0 @ ''"'',
     '''',
     ''echo ============================================'',
     ''echo FILE UPDATE SCRIPT'',
     ''echo ============================================'',
     ''echo.'',
     ''echo This script will perform the following actions:'',
     ''echo.'',
     ''echo - Create backup of: %dest_dir%'',
     ''echo - Copy files from: %source_dir%'',
     ''echo - Keep %max_backups% most recent backups'',
     ''echo - Save log to: %logfile%'',
     ''echo.'',
     ''echo ============================================'',
     ''echo.'',
     ''echo Proceeding with update...'',
     ''echo.'',
     '''',
     ''for /f %%I in ('powershell -NoProfile -Command "Get-Date -Format yyyy-MM-dd"') do set "date_str=%%I"'',
     ''for /f %%I in ('powershell -NoProfile -Command "Get-Date -Format HH:mm:ss"') do set "time_str=%%I"'',
     ''for /f %%I in ('powershell -NoProfile -Command "Get-Date -Format yyyyMMdd_HHmmss"') do set "timestamp=%%I"'',
     '''',
     ''echo ============================================'',
     ''echo Starting update process...'',
     ''echo Date: %date_str% %time_str%'',
     ''echo ============================================'',
     ''echo.'',
     '''',
     ''if not exist "%backup_dir%" ('',
     ''mkdir "%backup_dir%"'',
     ''echo Backup folder created: %backup_dir%'',
     '')'',
     '''',
     ''echo.'',
     ''echo [1/4] Creating backup of destination folder...'',
     ''set "current_backup=%backup_dir%'' @ backslash @ ''backup_%timestamp%"'',
     ''if exist "%dest_dir%" ('',
     ''xcopy "%dest_dir%'' @ backslash @ ''*" "%current_backup%'' @ backslash @ ''" /E /I /Q /Y'',
     ''if !errorlevel! equ 0 ('',
     ''echo Backup created successfully: %current_backup%'',
     '') else ('',
     ''echo ERROR: Could not create backup'',
     ''goto :error'',
     '')'',
     '') else ('',
     ''echo Destination folder does not exist. Nothing to back up.'',
     '')'',
     '''',
     ''echo.'',
     ''echo [2/4] Copying new files...''
    ]\<close>

definition update_tail :: "string list" where
  \<open>update_tail =
    [
     '''',
     ''echo.'',
     ''echo [3/4] Managing old backups...'',
     ''set /a counter=0'',
     ''for /f "tokens=*" %%F in ('dir /b /ad /o-d "%backup_dir%'' @ backslash @ ''backup_*" 2^>nul') do ('',
     ''set /a counter+=1'',
     ''if !counter! gtr %max_backups% ('',
     ''rd /s /q "%backup_dir%'' @ backslash @ ''%%F"'',
     ''echo Old backup deleted: %%F'',
     '')'',
     '')'',
     ''echo Total backups kept: %max_backups%'',
     '''',
     ''echo.'',
     ''echo [4/4] Saving log entry...'',
     ''echo ============================================ >> "%logfile%"'',
     ''echo Update completed: %date_str% %time_str% >> "%logfile%"'',
     ''echo User: %USERNAME% >> "%logfile%"'',
     ''echo Computer: %COMPUTERNAME% >> "%logfile%"'',
     ''echo Source: %source_dir% >> "%logfile%"'',
     ''echo Destination: %dest_dir% >> "%logfile%"'',
     ''echo Backup saved to: %current_backup% >> "%logfile%"'',
     ''echo ============================================ >> "%logfile%"'',
     ''echo. >> "%logfile%"'',
     '''',
     ''echo.'',
     ''echo ============================================'',
     ''echo PROCESS COMPLETED SUCCESSFULLY'',
     ''echo ============================================'',
     ''echo Files copied from: %source_dir%'',
     ''echo Destination: %dest_dir%'',
     ''echo Backup saved to: %current_backup%'',
     ''echo Log saved to: %logfile%'',
     ''echo.'',
     ''exit /b 0'',
     '''',
     '':error'',
     ''echo.'',
     ''echo ============================================'',
     ''echo ERROR: Process did not complete successfully'',
     ''echo ============================================'',
     ''echo Please review the error messages above'',
     ''echo.'',
     ''echo ============================================ >> "%logfile%"'',
     ''echo ERROR in update: %date_str% %time_str% >> "%logfile%"'',
     ''echo User: %USERNAME% >> "%logfile%"'',
     ''echo Computer: %COMPUTERNAME% >> "%logfile%"'',
     ''echo Process failed - review details >> "%logfile%"'',
     ''echo ============================================ >> "%logfile%"'',
     ''echo. >> "%logfile%"'',
     ''exit /b 1''
    ]\<close>

definition update_lines ::
  "(string \<Rightarrow> string \<Rightarrow> string) \<Rightarrow> string LocationConfig \<Rightarrow> string LocationConfig \<Rightarrow> BackupConfig
   \<Rightarrow> folder_spec list option \<Rightarrow> string list" where
  "update_lines path_join staging destination backup sourceFolders =
     (let sourceDir = path staging;
          destDir = path destination;
          backupDir = backup_path backup;
          logfile = slashes_to_backslashes (path_join sourceDir ''update.log'');
          maxBackups0 = (case maxBackups backup of None \<Rightarrow> 3 | Some n \<Rightarrow> n)
      in update_head sourceDir destDir backupDir logfile maxBackups0
         @ generateCopyCommands sourceDir destDir sourceFolders
         @ update_tail)"

definition generateUpdateBat ::
  "(string \<Rightarrow> string \<Rightarrow> string) \<Rightarrow> string LocationConfig \<Rightarrow> string LocationConfig \<Rightarrow> BackupConfig
   \<Rightarrow> folder_spec list option \<Rightarrow> string" where
  "generateUpdateBat path_join staging destination backup sourceFolders =
     join crlf (update_lines path_join staging destination backup sourceFolders)"

text \<open>\<open>generateRestoreBat\<close>, in the same way.\<close>

definition restore_lines ::
  "(string \<Rightarrow> string \<Rightarrow> string) \<Rightarrow> string LocationConfig \<Rightarrow> string LocationConfig \<Rightarrow> BackupConfig
   \<Rightarrow> string list" where
  \<open>restore_lines path_join staging destination backup =
     (let sourceDir = path staging;
          destDir = path destination;
          backupDir = backup_path backup;
          logfile = slashes_to_backslashes (path_join sourceDir ''restore.log'')
      in
     [
      ''@echo off'',
      ''setlocal enabledelayedexpansion'',
      '''',
      ''set "dest_dir='' @ destDir @ ''"'',
      ''set "backup_dir='' @ backupDir @ ''"'',
      ''set "logfile='' @ logfile @ ''"'',
      '''',
      ''for /f %%I in ('powershell -NoProfile -Command "Get-Date -Format yyyy-MM-dd"') do set "date_str=%%I"'',
      ''for /f %%I in ('powershell -NoProfile -Command "Get-Date -Format HH:mm:ss"') do set "time_str=%%I"'',
      '''',
      ''echo ============================================'',
      ''echo RESTORE LATEST BACKUP'',
      ''echo ============================================'',
      ''echo Date: %date_str% %time_str%'',
      ''echo.'',
      '''',
      ''if not exist "%backup_dir%" ('',
      ''echo ERROR: Backup folder not found'',
      ''echo Expected location: %backup_dir%'',
      ''goto :error'',
      '')'',
      '''',
      ''echo Searching for the most recent backup...'',
      ''set "latest_backup="'',
      ''for /f "tokens=*" %%F in ('dir /b /ad /o-d "%backup_dir%'' @ backslash @ ''backup_*" 2^>nul') do ('',
      ''if not defined latest_backup set "latest_backup=%%F"'',
      '')'',
      '''',
      ''if not defined latest_backup ('',
      ''echo ERROR: No backups found in folder'',
      ''echo Location: %backup_dir%'',
      ''goto :error'',
      '')'',
      '''',
      ''set "backup_path=%backup_dir%'' @ backslash @ ''%latest_backup%"'',
      '''',
      ''echo.'',
      ''echo ============================================'',
      ''echo BACKUP FOUND'',
      ''echo ============================================'',
      ''echo Backup to restore: %latest_backup%'',
      ''echo Location: %backup_path%'',
      ''echo Destination: %dest_dir%'',
      ''echo ============================================'',
      ''echo.'',
      '''',
      ''echo.'',
      ''echo [1/2] Cleaning destination folder...'',
      ''if exist "%dest_dir%" ('',
      ''rd /s /q "%dest_dir%"'',
      ''echo Destination folder removed'',
      '')'',
      ''mkdir "%dest_dir%"'',
      ''echo Destination folder recreated'',
      '''',
      ''echo.'',
      ''echo [2/2] Restoring files from backup...'',
      ''xcopy "%backup_path%'' @ backslash @ ''*" "%dest_dir%'' @ backslash @ ''" /E /I /Y /Q'',
      ''if !errorlevel! equ 0 ('',
      ''echo Files restored successfully'',
      '') else ('',
      ''echo ERROR: Failed to restore files'',
      ''goto :error'',
      '')'',
      '''',
      ''echo ============================================ >> "%logfile%"'',
      ''echo Restore completed: %date_str% %time_str% >> "%logfile%"'',
      ''echo Backup restored: %latest_backup% >> "%logfile%"'',
      ''echo Source: %backup_path% >> "%logfile%"'',
      ''echo Destination: %dest_dir% >> "%logfile%"'',
      ''echo ============================================ >> "%logfile%"'',
      ''echo. >> "%logfile%"'',
      '''',
      ''echo.'',
      ''echo ============================================'',
      ''echo RESTORE COMPLETED SUCCESSFULLY'',
      ''echo ============================================'',
      ''echo Backup restored: %latest_backup%'',
      ''echo Files copied to: %dest_dir%'',
      ''echo Log saved to: %logfile%'',
      ''echo.'',
      ''exit /b 0'',
      '''',
      '':error'',
      ''echo.'',
      ''echo ============================================'',
      ''echo ERROR: Restore did not complete'',
      ''echo ============================================'',
      ''echo Please review the error messages above'',
      ''echo.'',
      ''echo ============================================ >> "%logfile%"'',
      ''echo ERROR in restore: %date_str% %time_str% >> "%logfile%"'',
      ''echo Process failed - review details >> "%logfile%"'',
      ''echo ============================================ >> "%logfile%"'',
      ''echo. >> "%logfile%"'',
      ''exit /b 1''
     ])\<close>

definition generateRestoreBat ::
  "(string \<Rightarrow> string \<Rightarrow> string) \<Rightarrow> string LocationConfig \<Rightarrow> string LocationConfig \<Rightarrow> BackupConfig
   \<Rightarrow> string" where
  "generateRestoreBat path_join staging destination backup =
     join crlf (restore_lines path_join staging destination backup)"

text \<open>
  A profile for the examples: Windows paths, five backups kept, one folder taken whole
  and one file of another folder. \<open>win_join\<close> joins two path segments with a backslash,
  as \<open>path.join\<close> does for them on Windows.
\<close>

definition win_join :: "string \<Rightarrow> string \<Rightarrow> string" where
  "win_join a b = a @ backslash @ b"

definition staging_dir :: "string LocationConfig" where
  "staging_dir = \<lparr>type = Local, path = ''C:'' @ backslash @ ''staging'', ssh = None\<rparr>"

definition destination_dir :: "string LocationConfig" where
  "destination_dir = \<lparr>type = Local, path = ''C:'' @ backslash @ ''app'', ssh = None\<rparr>"

definition backup_cfg :: BackupConfig where
  "backup_cfg = \<lparr>backup_path = ''C:'' @ backslash @ ''backups'', maxBackups = Some 5\<rparr>"

definition selection :: "folder_spec list" where
  "selection = [WholeFolder ''wwwroot'', FolderFiles [(''bin'', [''app.dll''])]]"

text \<open>
  The update script of the example profile, with its selection and with none.
\<close>

definition update_script_selection :: "string list" where
  "update_script_selection = update_lines win_join staging_dir destination_dir backup_cfg (Some selection)"

definition update_script_no_selection :: "string list" where
  "update_script_no_selection = update_lines win_join staging_dir destination_dir backup_cfg None"

text \<open>The restore script of the example profile.\<close>

definition restore_script_example :: "string list" where
  "restore_script_example = restore_lines win_join staging_dir destination_dir backup_cfg"

section \<open>Running a generated script (cmd.exe)\<close>

text \<open>
  The generated scripts use a small part of the batch language. \<open>command\<close> is that part
  as a syntax tree, \<open>render\<close> gives the lines of a tree, and \<open>run_command\<close> runs a tree, the way
  \<open>cmd.exe\<close> runs the lines.
\<close>

datatype test = Exist string | Defined string | ErrorlevelEqu nat | CounterGtr string | IsBat

datatype command =
    EchoOff
  | Setlocal
  | Blank
  | Echo string
  | EchoLog string
  | SetVar string string
  | ForDate string string
  | ForBackups "command list"
  | IfThen bool test "command list"
  | IfElse bool test "command list" "command list"
  | IfDo bool test command
  | Rd string
  | Mkdir string
  | Xcopy string string string
  | Copy string string
  | CounterZero
  | CounterIncr
  | ForDirs string "command list"
  | ForFiles string "command list"
  | Goto string
  | ExitB nat
  | Label string

text \<open>
  The tests of \<open>if\<close>: a path exists, a variable is defined, the error level equals a
  number, the counter of the rotation is greater than the number a variable holds, and
  the extension of the file of the loop is \<open>.bat\<close>, whatever the case of its letters.
  \<open>Echo\<close> and \<open>EchoLog\<close> carry the text after the word \<open>echo\<close>; \<open>EchoLog\<close> is the line that
  appends to the log file. \<open>ForDate\<close> is the loop that reads the clock through
  \<open>powershell\<close>, \<open>ForBackups\<close> the loop over the \<open>backup_*\<close> directories of the backup
  root, newest first, \<open>ForDirs\<close> and \<open>ForFiles\<close> the loops over the directories and the
  files that match a pattern. \<open>IfDo\<close> is an \<open>if\<close> with its command on the same line.
\<close>

definition render_test :: "bool \<Rightarrow> test \<Rightarrow> string" where
  \<open>render_test negated t =
     ''if '' @ (if t = IsBat then ''/i '' else []) @ (if negated then ''not '' else [])
     @ (case t of
          Exist p \<Rightarrow> ''exist "'' @ p @ ''"''
        | Defined v \<Rightarrow> ''defined '' @ v
        | ErrorlevelEqu n \<Rightarrow> ''!errorlevel! equ '' @ string_of_nat n
        | CounterGtr v \<Rightarrow> ''!counter! gtr %'' @ v @ ''%''
        | IsBat \<Rightarrow> ''"%%~xF"==".bat"'')\<close>

fun render :: "command \<Rightarrow> string list" where
  \<open>render EchoOff = [''@echo off'']\<close>
| \<open>render Setlocal = [''setlocal enabledelayedexpansion'']\<close>
| \<open>render Blank = ['''']\<close>
| \<open>render (Echo t) = [''echo'' @ t]\<close>
| \<open>render (EchoLog t) = [''echo'' @ t @ '' >> "%logfile%"'']\<close>
| \<open>render (SetVar v x) = [''set "'' @ v @ ''='' @ x @ ''"'']\<close>
| \<open>render (ForDate fmt v) =
     [''for /f %%I in ('powershell -NoProfile -Command "Get-Date -Format '' @ fmt
      @ ''"') do set "'' @ v @ ''=%%I"'']\<close>
| \<open>render (ForBackups body) =
     [''for /f "tokens=*" %%F in ('dir /b /ad /o-d "%backup_dir%'' @ backslash
      @ ''backup_*" 2^>nul') do (''] @ concat (map render body) @ ['')'']\<close>
| \<open>render (IfThen negated t body) =
     [render_test negated t @ '' (''] @ concat (map render body) @ ['')'']\<close>
| \<open>render (IfElse negated t body1 body2) =
     [render_test negated t @ '' (''] @ concat (map render body1) @ ['') else ('']
     @ concat (map render body2) @ ['')'']\<close>
| \<open>render (IfDo negated t c) = [render_test negated t @ '' '' @ concat (render c)]\<close>
| \<open>render (Rd p) = [''rd /s /q "'' @ p @ ''"'']\<close>
| \<open>render (Mkdir p) = [''mkdir "'' @ p @ ''"'']\<close>
| \<open>render (Xcopy from to switches) = [''xcopy "'' @ from @ ''" "'' @ to @ ''" '' @ switches]\<close>
| \<open>render (Copy from to) = [''copy /y "'' @ from @ ''" "'' @ to @ ''"'']\<close>
| \<open>render CounterZero = [''set /a counter=0'']\<close>
| \<open>render CounterIncr = [''set /a counter+=1'']\<close>
| \<open>render (ForDirs pattern body) =
     [''for /d %%D in ("'' @ pattern @ ''") do (''] @ concat (map render body) @ ['')'']\<close>
| \<open>render (ForFiles pattern body) =
     [''for %%F in ("'' @ pattern @ ''") do (''] @ concat (map render body) @ ['')'']\<close>
| \<open>render (Goto l) = [''goto :'' @ l]\<close>
| \<open>render (ExitB n) = [''exit /b '' @ string_of_nat n]\<close>
| \<open>render (Label l) = ['':'' @ l]\<close>

definition render_script :: "command list \<Rightarrow> string list" where
  "render_script cs = concat (map render cs)"

text \<open>
  What a run does to the host is the list of its effects, in order: a directory removed
  (\<open>rd /s /q\<close>), a directory created, a copy by \<open>xcopy\<close> or by \<open>copy\<close>, a line appended to
  the log. The paths are the text of the command with the variable of a loop replaced;
  \<open>%name%\<close> stands for the value the script gave that variable. The host answers, after
  the effects so far: whether a path exists, the names the listings give, the exit code of
  a command, and the text of the clock. The shell holds the variables, the error level,
  the counter of \<open>set /a\<close>, and the effects so far.
\<close>

datatype effect =
    Removed string
  | Created string
  | XCopied string string
  | Copied string string
  | Logged string

record host =
  exists_on :: "effect list \<Rightarrow> string \<Rightarrow> bool"
  backups_on :: "effect list \<Rightarrow> string list"
  dirs_on :: "effect list \<Rightarrow> string \<Rightarrow> string list"
  files_on :: "effect list \<Rightarrow> string \<Rightarrow> string list"
  exit_code :: "effect list \<Rightarrow> effect \<Rightarrow> nat"
  clock :: "string \<Rightarrow> string"

record shell =
  vars :: "string \<Rightarrow> string option"
  errorlevel :: nat
  counter :: nat
  effects :: "effect list"

datatype outcome = Next shell | Jump string shell | Exit nat shell

text \<open>
  Inside a loop the loop variable and its modifiers stand for text: \<open>%%F\<close> for the name
  the backup listing gives; \<open>%%D\<close> for a directory the pattern matches and \<open>%%~nxD\<close> for
  its name; \<open>%%F\<close> for a file the pattern matches and \<open>%%~xF\<close> for its extension. A binding
  is the list of these replacements, \<open>expand\<close> applies them to the text of a command.
\<close>

function replace_all :: "string \<Rightarrow> string \<Rightarrow> string \<Rightarrow> string" where
  "replace_all pattern by [] = []"
| "replace_all pattern by (c # cs) =
     (if pattern \<noteq> [] \<and> prefix pattern (c # cs)
      then by @ replace_all pattern by (drop (length pattern) (c # cs))
      else c # replace_all pattern by cs)"
  by pat_completeness auto
termination
  by (relation "measure (\<lambda>(pattern, by, text). length text)") auto

fun expand :: "(string \<times> string) list \<Rightarrow> string \<Rightarrow> string" where
  "expand [] text = text"
| "expand ((pattern, by) # binding) text = expand binding (replace_all pattern by text)"

definition extension :: "string \<Rightarrow> string" where
  "extension name =
     (if CHR ''.'' \<in> set name then CHR ''.'' # rev (takeWhile (\<lambda>c. c \<noteq> CHR ''.'') (rev name))
      else [])"

definition directory_of :: "string \<Rightarrow> string" where
  "directory_of pattern = rev (dropWhile (\<lambda>c. c \<noteq> CHR 0x5C) (rev pattern))"

definition holds :: "host \<Rightarrow> (string \<times> string) list \<Rightarrow> shell \<Rightarrow> test \<Rightarrow> bool" where
  "holds h binding s t =
     (case t of
        Exist p \<Rightarrow> exists_on h (effects s) (expand binding p)
      | Defined v \<Rightarrow> vars s v \<noteq> None
      | ErrorlevelEqu n \<Rightarrow> errorlevel s = n
      | CounterGtr v \<Rightarrow>
          (case vars s v of None \<Rightarrow> False | Some limit \<Rightarrow> nat_of_string limit < counter s)
      | IsBat \<Rightarrow> map lower_case (expand binding ''%%~xF'') = ''.bat'')"

definition assign :: "string \<Rightarrow> string \<Rightarrow> shell \<Rightarrow> shell" where
  "assign v x s = s\<lparr>vars := (vars s)(v := (if x = [] then None else Some x))\<rparr>"

definition record_effect :: "effect \<Rightarrow> shell \<Rightarrow> shell" where
  "record_effect e s = s\<lparr>effects := effects s @ [e]\<rparr>"

definition external :: "host \<Rightarrow> effect \<Rightarrow> shell \<Rightarrow> shell" where
  "external h e s = record_effect e (s\<lparr>errorlevel := exit_code h (effects s) e\<rparr>)"

fun run_command :: "host \<Rightarrow> (string \<times> string) list \<Rightarrow> command \<Rightarrow> shell \<Rightarrow> outcome"
  and run_block :: "host \<Rightarrow> (string \<times> string) list \<Rightarrow> command list \<Rightarrow> shell \<Rightarrow> outcome"
  and run_each ::
    "host \<Rightarrow> (string \<Rightarrow> (string \<times> string) list) \<Rightarrow> string list \<Rightarrow> command list \<Rightarrow> shell
     \<Rightarrow> outcome" where
  "run_command h b EchoOff s = Next s"
| "run_command h b Setlocal s = Next s"
| "run_command h b Blank s = Next s"
| "run_command h b (Echo t) s = Next s"
| "run_command h b (EchoLog t) s = Next (record_effect (Logged (expand b t)) s)"
| "run_command h b (SetVar v x) s = Next (assign v (expand b x) s)"
| "run_command h b (ForDate fmt v) s = Next (assign v (clock h fmt) s)"
| "run_command h b (ForBackups body) s =
     run_each h (\<lambda>name. [(''%%F'', name)]) (backups_on h (effects s)) body s"
| "run_command h b (ForDirs pattern body) s =
     run_each h (\<lambda>name. [(''%%~nxD'', name), (''%%D'', directory_of pattern @ name)])
       (dirs_on h (effects s) pattern) body s"
| "run_command h b (ForFiles pattern body) s =
     run_each h (\<lambda>name. [(''%%~xF'', extension name), (''%%F'', directory_of pattern @ name)])
       (files_on h (effects s) pattern) body s"
| "run_command h b (IfThen negated t body) s =
     (if holds h b s t \<noteq> negated then run_block h b body s else Next s)"
| "run_command h b (IfElse negated t body1 body2) s =
     (if holds h b s t \<noteq> negated then run_block h b body1 s else run_block h b body2 s)"
| "run_command h b (IfDo negated t c) s =
     (if holds h b s t \<noteq> negated then run_command h b c s else Next s)"
| "run_command h b (Rd p) s = Next (external h (Removed (expand b p)) s)"
| "run_command h b (Mkdir p) s = Next (external h (Created (expand b p)) s)"
| "run_command h b (Xcopy from to switches) s =
     Next (external h (XCopied (expand b from) (expand b to)) s)"
| "run_command h b (Copy from to) s = Next (external h (Copied (expand b from) (expand b to)) s)"
| "run_command h b CounterZero s = Next (s\<lparr>counter := 0\<rparr>)"
| "run_command h b CounterIncr s = Next (s\<lparr>counter := Suc (counter s)\<rparr>)"
| "run_command h b (Goto l) s = Jump l s"
| "run_command h b (ExitB n) s = Exit n s"
| "run_command h b (Label l) s = Next s"
| "run_block h b [] s = Next s"
| "run_block h b (c # cs) s =
     (case run_command h b c s of
        Next s' \<Rightarrow> run_block h b cs s'
      | Jump l s' \<Rightarrow> Jump l s'
      | Exit n s' \<Rightarrow> Exit n s')"
| "run_each h bind [] body s = Next s"
| "run_each h bind (name # names) body s =
     (case run_block h (bind name) body s of
        Next s' \<Rightarrow> run_each h bind names body s'
      | Jump l s' \<Rightarrow> Jump l s'
      | Exit n s' \<Rightarrow> Exit n s')"

text \<open>
  \<open>goto\<close> leaves the blocks it is in and goes on after the label, which the scripts have
  at the top level; a label that is not there ends the script with code 1. \<open>run\<close> counts
  the jumps down from \<open>fuel\<close>. A script that runs to its end returns the error level.
\<close>

fun after_label :: "string \<Rightarrow> command list \<Rightarrow> command list option" where
  "after_label l [] = None"
| "after_label l (c # cs) = (if c = Label l then Some cs else after_label l cs)"

fun run :: "nat \<Rightarrow> host \<Rightarrow> command list \<Rightarrow> command list \<Rightarrow> shell \<Rightarrow> (nat \<times> shell) option" where
  "run 0 h script cs s = None"
| "run (Suc fuel) h script cs s =
     (case run_block h [] cs s of
        Next s' \<Rightarrow> Some (errorlevel s', s')
      | Exit n s' \<Rightarrow> Some (n, s')
      | Jump l s' \<Rightarrow>
          (case after_label l script of
             None \<Rightarrow> Some (1, s')
           | Some rest \<Rightarrow> run fuel h script rest s'))"

definition run_script :: "nat \<Rightarrow> host \<Rightarrow> command list \<Rightarrow> shell \<Rightarrow> (nat \<times> shell) option" where
  "run_script fuel h script s = run fuel h script script s"

text \<open>The restore script as a tree, line by line as \<open>generateRestoreBat\<close> writes it.\<close>

definition bar :: string where
  "bar = '' ============================================''"

definition restore_program :: "string \<Rightarrow> string \<Rightarrow> string \<Rightarrow> command list" where
  \<open>restore_program destDir backupDir logfile =
     [EchoOff,
      Setlocal,
      Blank,
      SetVar ''dest_dir'' destDir,
      SetVar ''backup_dir'' backupDir,
      SetVar ''logfile'' logfile,
      Blank,
      ForDate ''yyyy-MM-dd'' ''date_str'',
      ForDate ''HH:mm:ss'' ''time_str'',
      Blank,
      Echo bar,
      Echo '' RESTORE LATEST BACKUP'',
      Echo bar,
      Echo '' Date: %date_str% %time_str%'',
      Echo ''.'',
      Blank,
      IfThen True (Exist ''%backup_dir%'')
        [Echo '' ERROR: Backup folder not found'',
         Echo '' Expected location: %backup_dir%'',
         Goto ''error''],
      Blank,
      Echo '' Searching for the most recent backup...'',
      SetVar ''latest_backup'' [],
      ForBackups [IfDo True (Defined ''latest_backup'') (SetVar ''latest_backup'' ''%%F'')],
      Blank,
      IfThen True (Defined ''latest_backup'')
        [Echo '' ERROR: No backups found in folder'',
         Echo '' Location: %backup_dir%'',
         Goto ''error''],
      Blank,
      SetVar ''backup_path'' (''%backup_dir%'' @ backslash @ ''%latest_backup%''),
      Blank,
      Echo ''.'',
      Echo bar,
      Echo '' BACKUP FOUND'',
      Echo bar,
      Echo '' Backup to restore: %latest_backup%'',
      Echo '' Location: %backup_path%'',
      Echo '' Destination: %dest_dir%'',
      Echo bar,
      Echo ''.'',
      Blank,
      Echo ''.'',
      Echo '' [1/2] Cleaning destination folder...'',
      IfThen False (Exist ''%dest_dir%'')
        [Rd ''%dest_dir%'',
         Echo '' Destination folder removed''],
      Mkdir ''%dest_dir%'',
      Echo '' Destination folder recreated'',
      Blank,
      Echo ''.'',
      Echo '' [2/2] Restoring files from backup...'',
      Xcopy (''%backup_path%'' @ backslash @ ''*'') (''%dest_dir%'' @ backslash) ''/E /I /Y /Q'',
      IfElse False (ErrorlevelEqu 0)
        [Echo '' Files restored successfully'']
        [Echo '' ERROR: Failed to restore files'',
         Goto ''error''],
      Blank,
      EchoLog bar,
      EchoLog '' Restore completed: %date_str% %time_str%'',
      EchoLog '' Backup restored: %latest_backup%'',
      EchoLog '' Source: %backup_path%'',
      EchoLog '' Destination: %dest_dir%'',
      EchoLog bar,
      EchoLog ''.'',
      Blank,
      Echo ''.'',
      Echo bar,
      Echo '' RESTORE COMPLETED SUCCESSFULLY'',
      Echo bar,
      Echo '' Backup restored: %latest_backup%'',
      Echo '' Files copied to: %dest_dir%'',
      Echo '' Log saved to: %logfile%'',
      Echo ''.'',
      ExitB 0,
      Blank,
      Label ''error'',
      Echo ''.'',
      Echo bar,
      Echo '' ERROR: Restore did not complete'',
      Echo bar,
      Echo '' Please review the error messages above'',
      Echo ''.'',
      EchoLog bar,
      EchoLog '' ERROR in restore: %date_str% %time_str%'',
      EchoLog '' Process failed - review details'',
      EchoLog bar,
      EchoLog ''.'',
      ExitB 1]\<close>

text \<open>The log entries of the restore script, its copy, and the wipe that precedes it.\<close>

definition restore_error_log :: "effect list" where
  "restore_error_log =
     [Logged bar, Logged '' ERROR in restore: %date_str% %time_str%'',
      Logged '' Process failed - review details'', Logged bar, Logged ''.'']"

definition restore_success_log :: "effect list" where
  "restore_success_log =
     [Logged bar, Logged '' Restore completed: %date_str% %time_str%'',
      Logged '' Backup restored: %latest_backup%'', Logged '' Source: %backup_path%'',
      Logged '' Destination: %dest_dir%'', Logged bar, Logged ''.'']"

definition restore_copy :: effect where
  "restore_copy = XCopied (''%backup_path%'' @ backslash @ ''*'') (''%dest_dir%'' @ backslash)"

definition restore_wipe :: "host \<Rightarrow> effect list" where
  "restore_wipe h =
     (if exists_on h [] ''%dest_dir%'' then [Removed ''%dest_dir%''] else [])
     @ [Created ''%dest_dir%'']"

text \<open>
  The update script as a tree, built as \<open>generateUpdateBat\<close> and \<open>generateCopyCommands\<close>
  build its lines.
\<close>

definition error_check :: "string \<Rightarrow> string \<Rightarrow> command" where
  "error_check done failed = IfElse False (ErrorlevelEqu 0) [Echo done] [Echo failed, Goto ''error'']"

definition whole_folder_program :: "string \<Rightarrow> string \<Rightarrow> string \<Rightarrow> command list" where
  "whole_folder_program sourceDir destDir folderSpec =
     [Xcopy (sourceDir @ backslash @ folderSpec @ backslash @ ''*'')
        (destDir @ backslash @ folderSpec @ backslash) ''/E /I /Y /Q'',
      error_check ('' Folder copied: '' @ folderSpec)
        ('' ERROR: Failed to copy folder '' @ folderSpec)]"

definition file_program :: "string \<Rightarrow> string \<Rightarrow> string \<Rightarrow> string \<Rightarrow> command list" where
  "file_program sourceDir destDir folderName file =
     [Copy (sourceDir @ backslash @ folderName @ backslash @ file)
        (destDir @ backslash @ folderName @ backslash @ file),
      error_check ('' File copied: '' @ folderName @ backslash @ file)
        ('' ERROR: Failed to copy '' @ folderName @ backslash @ file)]"

definition entry_program :: "string \<Rightarrow> string \<Rightarrow> string \<times> string list \<Rightarrow> command list" where
  "entry_program sourceDir destDir entry =
     (case entry of (folderName, files) \<Rightarrow>
        IfDo True (Exist (destDir @ backslash @ folderName)) (Mkdir (destDir @ backslash @ folderName))
        # concat (map (file_program sourceDir destDir folderName) files))"

fun folder_spec_program :: "string \<Rightarrow> string \<Rightarrow> folder_spec \<Rightarrow> command list" where
  "folder_spec_program sourceDir destDir (WholeFolder folderSpec) =
     whole_folder_program sourceDir destDir folderSpec"
| "folder_spec_program sourceDir destDir (FolderFiles entries) =
     concat (map (entry_program sourceDir destDir) entries)"

definition copy_everything_program :: "string \<Rightarrow> string \<Rightarrow> command list" where
  "copy_everything_program sourceDir destDir =
     [ForDirs (sourceDir @ backslash @ ''*'')
        [Xcopy (''%%D'' @ backslash @ ''*'') (destDir @ backslash @ ''%%~nxD'' @ backslash)
           ''/E /I /Y /Q''],
      ForFiles (sourceDir @ backslash @ ''*'')
        [IfDo True IsBat (Copy ''%%F'' (destDir @ backslash))]]"

definition copy_program :: "string \<Rightarrow> string \<Rightarrow> folder_spec list option \<Rightarrow> command list" where
  "copy_program sourceDir destDir sourceFolders =
     (case sourceFolders of
        None \<Rightarrow> copy_everything_program sourceDir destDir
      | Some [] \<Rightarrow> copy_everything_program sourceDir destDir
      | Some (f # fs) \<Rightarrow> concat (map (folder_spec_program sourceDir destDir) (f # fs)))"

definition update_program_head ::
  "string \<Rightarrow> string \<Rightarrow> string \<Rightarrow> string \<Rightarrow> nat \<Rightarrow> command list" where
  "update_program_head sourceDir destDir backupDir logfile maxBackups0 =
     [EchoOff,
      Setlocal,
      SetVar ''source_dir'' sourceDir,
      SetVar ''dest_dir'' destDir,
      SetVar ''backup_dir'' backupDir,
      SetVar ''logfile'' logfile,
      SetVar ''max_backups'' (string_of_nat maxBackups0),
      Blank,
      Echo bar,
      Echo '' FILE UPDATE SCRIPT'',
      Echo bar,
      Echo ''.'',
      Echo '' This script will perform the following actions:'',
      Echo ''.'',
      Echo '' - Create backup of: %dest_dir%'',
      Echo '' - Copy files from: %source_dir%'',
      Echo '' - Keep %max_backups% most recent backups'',
      Echo '' - Save log to: %logfile%'',
      Echo ''.'',
      Echo bar,
      Echo ''.'',
      Echo '' Proceeding with update...'',
      Echo ''.'',
      Blank,
      ForDate ''yyyy-MM-dd'' ''date_str'',
      ForDate ''HH:mm:ss'' ''time_str'',
      ForDate ''yyyyMMdd_HHmmss'' ''timestamp'',
      Blank,
      Echo bar,
      Echo '' Starting update process...'',
      Echo '' Date: %date_str% %time_str%'',
      Echo bar,
      Echo ''.'',
      Blank,
      IfThen True (Exist ''%backup_dir%'')
        [Mkdir ''%backup_dir%'',
         Echo '' Backup folder created: %backup_dir%''],
      Blank,
      Echo ''.'',
      Echo '' [1/4] Creating backup of destination folder...'',
      SetVar ''current_backup'' (''%backup_dir%'' @ backslash @ ''backup_%timestamp%''),
      IfElse False (Exist ''%dest_dir%'')
        [Xcopy (''%dest_dir%'' @ backslash @ ''*'') (''%current_backup%'' @ backslash) ''/E /I /Q /Y'',
         error_check '' Backup created successfully: %current_backup%''
           '' ERROR: Could not create backup'']
        [Echo '' Destination folder does not exist. Nothing to back up.''],
      Blank,
      Echo ''.'',
      Echo '' [2/4] Copying new files...'']"

definition update_program_tail :: "command list" where
  "update_program_tail =
     [Blank,
      Echo ''.'',
      Echo '' [3/4] Managing old backups...'',
      CounterZero,
      ForBackups
        [CounterIncr,
         IfThen False (CounterGtr ''max_backups'')
           [Rd (''%backup_dir%'' @ backslash @ ''%%F''),
            Echo '' Old backup deleted: %%F'']],
      Echo '' Total backups kept: %max_backups%'',
      Blank,
      Echo ''.'',
      Echo '' [4/4] Saving log entry...'',
      EchoLog bar,
      EchoLog '' Update completed: %date_str% %time_str%'',
      EchoLog '' User: %USERNAME%'',
      EchoLog '' Computer: %COMPUTERNAME%'',
      EchoLog '' Source: %source_dir%'',
      EchoLog '' Destination: %dest_dir%'',
      EchoLog '' Backup saved to: %current_backup%'',
      EchoLog bar,
      EchoLog ''.'',
      Blank,
      Echo ''.'',
      Echo bar,
      Echo '' PROCESS COMPLETED SUCCESSFULLY'',
      Echo bar,
      Echo '' Files copied from: %source_dir%'',
      Echo '' Destination: %dest_dir%'',
      Echo '' Backup saved to: %current_backup%'',
      Echo '' Log saved to: %logfile%'',
      Echo ''.'',
      ExitB 0,
      Blank,
      Label ''error'',
      Echo ''.'',
      Echo bar,
      Echo '' ERROR: Process did not complete successfully'',
      Echo bar,
      Echo '' Please review the error messages above'',
      Echo ''.'',
      EchoLog bar,
      EchoLog '' ERROR in update: %date_str% %time_str%'',
      EchoLog '' User: %USERNAME%'',
      EchoLog '' Computer: %COMPUTERNAME%'',
      EchoLog '' Process failed - review details'',
      EchoLog bar,
      EchoLog ''.'',
      ExitB 1]"

definition update_program ::
  "(string \<Rightarrow> string \<Rightarrow> string) \<Rightarrow> string LocationConfig \<Rightarrow> string LocationConfig \<Rightarrow> BackupConfig
   \<Rightarrow> folder_spec list option \<Rightarrow> command list" where
  "update_program path_join staging destination backup sourceFolders =
     (let sourceDir = path staging;
          destDir = path destination;
          backupDir = backup_path backup;
          logfile = slashes_to_backslashes (path_join sourceDir ''update.log'');
          maxBackups0 = (case maxBackups backup of None \<Rightarrow> 3 | Some n \<Rightarrow> n)
      in update_program_head sourceDir destDir backupDir logfile maxBackups0
         @ copy_program sourceDir destDir sourceFolders
         @ update_program_tail)"

text \<open>
  A host on which the destination and the backup root exist, the staging directory holds
  the folder \<open>wwwroot\<close> and the files \<open>web.config\<close> and \<open>update.bat\<close>, two backups are
  there, and every copy out of the staging directory fails (\<open>xcopy\<close> with code 4, \<open>copy\<close>
  with code 1) while the backup of the destination and everything else succeeds.
\<close>

definition failing_copy_host :: host where
  "failing_copy_host =
     \<lparr>exists_on = (\<lambda>done p. True),
      backups_on = (\<lambda>done. [''backup_20240501_100000'', ''backup_20240401_100000'']),
      dirs_on = (\<lambda>done pattern. [''wwwroot'']),
      files_on = (\<lambda>done pattern. [''web.config'', ''update.bat'']),
      exit_code =
        (\<lambda>done e. case e of
           XCopied from to \<Rightarrow> if from = ''%dest_dir%'' @ backslash @ ''*'' then 0 else 4
         | Copied from to \<Rightarrow> 1
         | _ \<Rightarrow> 0),
      clock = (\<lambda>fmt. ''now'')\<rparr>"

definition fresh_shell :: shell where
  "fresh_shell = \<lparr>vars = (\<lambda>v. None), errorlevel = 0, counter = 0, effects = []\<rparr>"

text \<open>The effects of the update script on that host, and its two log entries.\<close>

definition update_backup_copy :: effect where
  "update_backup_copy = XCopied (''%dest_dir%'' @ backslash @ ''*'') (''%current_backup%'' @ backslash)"

definition wwwroot_copy :: effect where
  "wwwroot_copy =
     XCopied (''C:'' @ backslash @ ''staging'' @ backslash @ ''wwwroot'' @ backslash @ ''*'')
       (''C:'' @ backslash @ ''app'' @ backslash @ ''wwwroot'' @ backslash)"

definition web_config_copy :: effect where
  "web_config_copy =
     Copied (''C:'' @ backslash @ ''staging'' @ backslash @ ''web.config'')
       (''C:'' @ backslash @ ''app'' @ backslash)"

definition update_success_log :: "effect list" where
  "update_success_log =
     [Logged bar, Logged '' Update completed: %date_str% %time_str%'', Logged '' User: %USERNAME%'',
      Logged '' Computer: %COMPUTERNAME%'', Logged '' Source: %source_dir%'',
      Logged '' Destination: %dest_dir%'', Logged '' Backup saved to: %current_backup%'',
      Logged bar, Logged ''.'']"

definition update_error_log :: "effect list" where
  "update_error_log =
     [Logged bar, Logged '' ERROR in update: %date_str% %time_str%'', Logged '' User: %USERNAME%'',
      Logged '' Computer: %COMPUTERNAME%'', Logged '' Process failed - review details'',
      Logged bar, Logged ''.'']"

definition outcome_of :: "(nat \<times> shell) option \<Rightarrow> (nat \<times> effect list) option" where
  "outcome_of r = map_option (\<lambda>(code, s). (code, effects s)) r"

text \<open>
  \<open>cmd.exe\<close> reads some characters of a line as syntax: the double quote, \<open>&\<close>, \<open>|\<close>,
  \<open><\<close>, \<open>>\<close>, \<open>^\<close>, \<open>%\<close>, \<open>!\<close>, the parentheses and the line breaks. The tree of a
  script tells what its lines do when the paths of the configuration are plain, that is,
  hold none of them. \<open>commands_of_line\<close> cuts a line at every \<open>&\<close> outside double quotes,
  as \<open>cmd.exe\<close> does before it runs the pieces one after the other.
\<close>

definition special_characters :: string where
  "special_characters =
     [CHR 0x22, CHR ''&'', CHR ''|'', CHR ''<'', CHR ''>'', CHR ''^'', CHR ''%'', CHR ''!'',
      CHR ''('', CHR '')'', CHR 0x0D, CHR 0x0A]"

definition plain :: "string \<Rightarrow> bool" where
  "plain p = list_all (\<lambda>c. c \<notin> set special_characters) p"

fun split_unquoted :: "bool \<Rightarrow> string \<Rightarrow> string \<Rightarrow> string list" where
  "split_unquoted quoted piece [] = [piece]"
| "split_unquoted quoted piece (c # cs) =
     (if c = CHR 0x22 then split_unquoted (\<not> quoted) (piece @ [c]) cs
      else if c = CHR ''&'' \<and> \<not> quoted then piece # split_unquoted False [] cs
      else split_unquoted quoted (piece @ [c]) cs)"

definition commands_of_line :: "string \<Rightarrow> string list" where
  "commands_of_line l = split_unquoted False [] l"

definition restore_script ::
  "(string \<Rightarrow> string \<Rightarrow> string) \<Rightarrow> string LocationConfig \<Rightarrow> string LocationConfig \<Rightarrow> BackupConfig
   \<Rightarrow> command list" where
  "restore_script path_join staging destination backup =
     restore_program (path destination) (backup_path backup)
       (slashes_to_backslashes (path_join (path staging) ''restore.log''))"

text \<open>
  A host with two backups on which everything succeeds, and one whose backup root is
  empty. A backup configuration whose path closes the quotes of its \<open>set\<close> line.
\<close>

definition restoring_host :: host where
  "restoring_host =
     \<lparr>exists_on = (\<lambda>done p. True),
      backups_on = (\<lambda>done. [''backup_20240501_100000'', ''backup_20240401_100000'']),
      dirs_on = (\<lambda>done pattern. []),
      files_on = (\<lambda>done pattern. []),
      exit_code = (\<lambda>done e. 0),
      clock = (\<lambda>fmt. ''now'')\<rparr>"

definition empty_backups_host :: host where
  "empty_backups_host = restoring_host\<lparr>backups_on := (\<lambda>done. [])\<rparr>"

definition hostile_backup :: BackupConfig where
  \<open>hostile_backup =
     \<lparr>backup_path = ''C:'' @ backslash @ ''b" & rd /s /q "C:'' @ backslash @ ''app'',
      maxBackups = None\<rparr>\<close>

section \<open>File operations on directory trees (services/file-ops.ts, services/ssh.ts)\<close>

text \<open>
  The file operations work on two file systems, the one of the machine that runs the
  tool and the one of the remote host behind the SFTP session. Each is a tree: a file
  with its content, or a directory with its entries by name. A path is the list of its
  segments from the root of the tree, so that \<open>path.join\<close> and \<open>joinPath\<close> are the
  appending of a segment; the rewriting of separators (\<open>toSshPath\<close>) has nothing left to
  do. \<open>lookup\<close> follows a path, \<open>put\<close> writes a node at a path whose parent is a
  directory, \<open>del_path\<close> removes the node at a path.
\<close>

type_synonym path = "string list"

datatype node = File string | Dir "(string \<times> node) list"

fun lookup :: "node \<Rightarrow> path \<Rightarrow> node option" where
  "lookup t [] = Some t"
| "lookup (File c) (n # p) = None"
| "lookup (Dir es) (n # p) = (case map_of es n of None \<Rightarrow> None | Some c \<Rightarrow> lookup c p)"

fun put :: "path \<Rightarrow> node \<Rightarrow> node \<Rightarrow> node option" where
  "put [] c t = None"
| "put (n # p) c (File x) = None"
| "put [n] c (Dir es) = Some (Dir (AList.update n c es))"
| "put (n # m # p) c (Dir es) =
     (case map_of es n of
        None \<Rightarrow> None
      | Some d \<Rightarrow> map_option (\<lambda>d'. Dir (AList.update n d' es)) (put (m # p) c d))"

fun del_path :: "path \<Rightarrow> node \<Rightarrow> node" where
  "del_path [] t = t"
| "del_path (n # p) (File x) = File x"
| "del_path [n] (Dir es) = Dir (AList.delete n es)"
| "del_path (n # m # p) (Dir es) =
     (case map_of es n of
        None \<Rightarrow> Dir es
      | Some d \<Rightarrow> Dir (AList.update n (del_path (m # p) d) es))"

fun is_dir :: "node option \<Rightarrow> bool" where
  "is_dir (Some (Dir es)) = True"
| "is_dir _ = False"

text \<open>
  The errors the file operations throw, by their messages: \<open>Source folder does not exist\<close>,
  \<open>Source file does not exist\<close>, \<open>Source path does not exist\<close> (local and
  \<open>on remote\<close>), \<open>Directory does not exist\<close> (local and \<open>on remote\<close>),
  \<open>SSH connection required\<close>, \<open>Unsupported copy operation\<close>; the errors of the file
  system and of the SFTP session with their code or operation and the path; and the error
  \<open>exec\<close> rejects with.
\<close>

datatype error =
    SourceFolderDoesNotExist path
  | SourceFileDoesNotExist path
  | SourcePathDoesNotExist path
  | SourcePathDoesNotExistOnRemote path
  | DirectoryDoesNotExist path
  | DirectoryDoesNotExistOnRemote path
  | SSHConnectionRequired string
  | UnsupportedCopyOperation
  | FsError string path
  | SftpError string path
  | CommandFailed string

subsection \<open>The file system of Node (fs, fs-extra)\<close>

definition pathExists :: "node \<Rightarrow> path \<Rightarrow> bool" where
  "pathExists t p = (lookup t p \<noteq> None)"

definition readdir :: "node \<Rightarrow> path \<Rightarrow> error + (string \<times> node) list" where
  "readdir t p =
     (case lookup t p of
        None \<Rightarrow> Inl (FsError ''ENOENT'' p)
      | Some (File x) \<Rightarrow> Inl (FsError ''ENOTDIR'' p)
      | Some (Dir es) \<Rightarrow> Inr es)"

definition remove :: "node \<Rightarrow> path \<Rightarrow> node" where
  "remove t p = del_path p t"

fun mkdirs_from :: "path \<Rightarrow> string list \<Rightarrow> node \<Rightarrow> node \<times> (error + unit)" where
  "mkdirs_from cur [] t = (t, Inr ())"
| "mkdirs_from cur (part # parts) t =
     (case lookup t (cur @ [part]) of
        Some (Dir es) \<Rightarrow> mkdirs_from (cur @ [part]) parts t
      | Some (File x) \<Rightarrow> (t, Inl (FsError ''EEXIST'' (cur @ [part])))
      | None \<Rightarrow>
          (case put (cur @ [part]) (Dir []) t of
             None \<Rightarrow> (t, Inl (FsError ''ENOTDIR'' (cur @ [part])))
           | Some t' \<Rightarrow> mkdirs_from (cur @ [part]) parts t'))"

definition fs_ensureDir :: "node \<Rightarrow> path \<Rightarrow> node \<times> (error + unit)" where
  "fs_ensureDir t p =
     (case t of File x \<Rightarrow> (t, Inl (FsError ''ENOTDIR'' [])) | Dir es \<Rightarrow> mkdirs_from [] p t)"

fun copy_node :: "node \<Rightarrow> path \<Rightarrow> node \<Rightarrow> node \<times> (error + unit)"
  and copy_entries :: "(string \<times> node) list \<Rightarrow> path \<Rightarrow> node \<Rightarrow> node \<times> (error + unit)" where
  "copy_node (File x) dst t =
     (case lookup t dst of
        Some (Dir ds) \<Rightarrow> (t, Inl (FsError ''EISDIR'' dst))
      | _ \<Rightarrow>
          (case put dst (File x) t of
             None \<Rightarrow> (t, Inl (FsError ''ENOENT'' dst))
           | Some t' \<Rightarrow> (t', Inr ())))"
| "copy_node (Dir es) dst t =
     (case lookup t dst of
        Some (File y) \<Rightarrow> (t, Inl (FsError ''ENOTDIR'' dst))
      | Some (Dir ds) \<Rightarrow> copy_entries es dst t
      | None \<Rightarrow>
          (case put dst (Dir []) t of
             None \<Rightarrow> (t, Inl (FsError ''ENOENT'' dst))
           | Some t' \<Rightarrow> copy_entries es dst t'))"
| "copy_entries [] dst t = (t, Inr ())"
| "copy_entries (e # es) dst t =
     (case copy_node (snd e) (dst @ [fst e]) t of
        (t', Inl err) \<Rightarrow> (t', Inl err)
      | (t', Inr u) \<Rightarrow> copy_entries es dst t')"

definition fs_copy :: "node \<Rightarrow> path \<Rightarrow> path \<Rightarrow> node \<times> (error + unit)" where
  "fs_copy t src dst =
     (case lookup t src of
        None \<Rightarrow> (t, Inl (FsError ''ENOENT'' src))
      | Some s \<Rightarrow>
          if prefix src dst then (t, Inl (FsError ''EINVAL'' dst))
          else
            (case fs_ensureDir t (butlast dst) of
               (t', Inl err) \<Rightarrow> (t', Inl err)
             | (t', Inr u) \<Rightarrow> copy_node s dst t'))"


subsection \<open>SSHService (services/ssh.ts) on the tree of the remote host\<close>

definition readDir :: "node \<Rightarrow> path \<Rightarrow> error + string list" where
  "readDir r remotePath =
     (case lookup r remotePath of
        None \<Rightarrow> Inr []
      | Some (File x) \<Rightarrow> Inl (SftpError ''readDir'' remotePath)
      | Some (Dir es) \<Rightarrow> Inr (map fst es))"

definition stat :: "node \<Rightarrow> path \<Rightarrow> node option" where
  "stat r remotePath = lookup r remotePath"

definition mkdirSingle :: "node \<Rightarrow> path \<Rightarrow> error + node" where
  "mkdirSingle r remotePath =
     (case lookup r remotePath of
        Some n \<Rightarrow> Inr r
      | None \<Rightarrow>
          (case put remotePath (Dir []) r of
             None \<Rightarrow> Inl (SftpError ''mkdir'' remotePath)
           | Some r' \<Rightarrow> Inr r'))"

definition is_letter :: "char \<Rightarrow> bool" where
  "is_letter c =
     (let n = (of_char c :: nat) in (65 \<le> n \<and> n \<le> 90) \<or> (97 \<le> n \<and> n \<le> 122))"

definition isWindowsPath :: "path \<Rightarrow> bool" where
  "isWindowsPath p =
     (case p of
        [] \<Rightarrow> False
      | s # ss \<Rightarrow> (case s of a # b # cs \<Rightarrow> is_letter a \<and> b = CHR '':'' | _ \<Rightarrow> False))"

fun mkdir_parts :: "path \<Rightarrow> string list \<Rightarrow> node \<Rightarrow> node \<times> (error + unit)" where
  "mkdir_parts currentPath [] r = (r, Inr ())"
| "mkdir_parts currentPath (part # parts) r =
     (case stat r (currentPath @ [part]) of
        Some stats \<Rightarrow> mkdir_parts (currentPath @ [part]) parts r
      | None \<Rightarrow>
          (case mkdirSingle r (currentPath @ [part]) of
             Inl e \<Rightarrow> (r, Inl e)
           | Inr r' \<Rightarrow> mkdir_parts (currentPath @ [part]) parts r'))"

definition mkdir :: "node \<Rightarrow> path \<Rightarrow> bool \<Rightarrow> node \<times> (error + unit)" where
  "mkdir r remotePath recursive =
     (if recursive then
        (if isWindowsPath remotePath then mkdir_parts [hd remotePath] (tl remotePath) r
         else mkdir_parts [] remotePath r)
      else
        (case mkdirSingle r remotePath of Inl e \<Rightarrow> (r, Inl e) | Inr r' \<Rightarrow> (r', Inr ())))"

text \<open>fastPut and fastGet move the bytes of one file between the local and the remote tree.\<close>

definition uploadFile :: "node \<Rightarrow> path \<Rightarrow> node \<Rightarrow> path \<Rightarrow> error + node" where
  "uploadFile l localPath r remotePath =
     (case lookup l localPath of
        Some (File x) \<Rightarrow>
          (case lookup r remotePath of
             Some (Dir ds) \<Rightarrow> Inl (SftpError ''uploadFile'' remotePath)
           | _ \<Rightarrow>
               (case put remotePath (File x) r of
                  None \<Rightarrow> Inl (SftpError ''uploadFile'' remotePath)
                | Some r' \<Rightarrow> Inr r'))
      | _ \<Rightarrow> Inl (SftpError ''uploadFile'' localPath))"

definition downloadFile :: "node \<Rightarrow> path \<Rightarrow> node \<Rightarrow> path \<Rightarrow> error + node" where
  "downloadFile r remotePath l localPath =
     (case lookup r remotePath of
        Some (File x) \<Rightarrow>
          (case lookup l localPath of
             Some (Dir ds) \<Rightarrow> Inl (SftpError ''downloadFile'' localPath)
           | _ \<Rightarrow>
               (case put localPath (File x) l of
                  None \<Rightarrow> Inl (SftpError ''downloadFile'' localPath)
                | Some l' \<Rightarrow> Inr l'))
      | _ \<Rightarrow> Inl (SftpError ''downloadFile'' remotePath))"

definition deleteFile :: "node \<Rightarrow> path \<Rightarrow> error + node" where
  "deleteFile r remotePath =
     (case lookup r remotePath of
        Some (File x) \<Rightarrow> Inr (del_path remotePath r)
      | _ \<Rightarrow> Inl (SftpError ''unlink'' remotePath))"

definition rmdir :: "node \<Rightarrow> path \<Rightarrow> error + node" where
  "rmdir r remotePath =
     (case lookup r remotePath of
        Some (Dir []) \<Rightarrow>
          if remotePath = [] then Inl (SftpError ''rmdir'' remotePath)
          else Inr (del_path remotePath r)
      | _ \<Rightarrow> Inl (SftpError ''rmdir'' remotePath))"

text \<open>
  \<open>deleteDir\<close> calls itself for every subdirectory it finds on the remote host, whatever
  the host answers; the model counts the nesting of the calls down from \<open>fuel\<close> and has
  no result (\<open>None\<close>) when the count is used up.
\<close>

fun deleteDir :: "nat \<Rightarrow> node \<Rightarrow> path \<Rightarrow> (node \<times> (error + unit)) option"
  and deleteDir_files :: "nat \<Rightarrow> node \<Rightarrow> path \<Rightarrow> string list \<Rightarrow> (node \<times> (error + unit)) option" where
  "deleteDir 0 r remotePath = None"
| "deleteDir (Suc fuel) r remotePath =
     (case readDir r remotePath of
        Inl e \<Rightarrow> Some (r, Inl e)
      | Inr files \<Rightarrow>
          (case deleteDir_files fuel r remotePath files of
             None \<Rightarrow> None
           | Some (r1, Inl e) \<Rightarrow> Some (r1, Inl e)
           | Some (r1, Inr u) \<Rightarrow>
               (case rmdir r1 remotePath of
                  Inl e \<Rightarrow> Some (r1, Inl e)
                | Inr r2 \<Rightarrow> Some (r2, Inr ()))))"
| "deleteDir_files fuel r remotePath [] = Some (r, Inr ())"
| "deleteDir_files fuel r remotePath (file # files) =
     (case (if is_dir (stat r (remotePath @ [file]))
            then deleteDir fuel r (remotePath @ [file])
            else (case deleteFile r (remotePath @ [file]) of
                    Inl e \<Rightarrow> Some (r, Inl e)
                  | Inr r1 \<Rightarrow> Some (r1, Inr ()))) of
        None \<Rightarrow> None
      | Some (r1, Inl e) \<Rightarrow> Some (r1, Inl e)
      | Some (r1, Inr u) \<Rightarrow> deleteDir_files fuel r1 remotePath files)"

subsection \<open>FileOpsService on the local tree and the tree of the remote host\<close>

record world =
  local_fs :: node
  remote_fs :: node

definition connected :: "path LocationConfig \<Rightarrow> bool" where
  "connected location = (type location = SSH \<and> ssh location \<noteq> None)"

fun wf_node :: "node \<Rightarrow> bool" and wf_entries :: "(string \<times> node) list \<Rightarrow> bool" where
  "wf_node (File x) = True"
| "wf_node (Dir es) = (distinct (map fst es) \<and> wf_entries es)"
| "wf_entries [] = True"
| "wf_entries (e # es) = (wf_node (snd e) \<and> wf_entries es)"

definition deleteLocalContents :: "node \<Rightarrow> path \<Rightarrow> node \<times> (error + unit)" where
  "deleteLocalContents l dirPath =
     (if \<not> pathExists l dirPath then (l, Inr ())
      else
        (case readdir l dirPath of
           Inl e \<Rightarrow> (l, Inl e)
         | Inr entries \<Rightarrow>
             (fold (\<lambda>entry t. remove t (dirPath @ [fst entry])) entries l, Inr ())))"

definition deleteSSHContents :: "nat \<Rightarrow> node \<Rightarrow> path \<Rightarrow> (node \<times> (error + unit)) option" where
  "deleteSSHContents fuel r dirPath =
     (case readDir r dirPath of
        Inl e \<Rightarrow> Some (r, Inl e)
      | Inr files \<Rightarrow> deleteDir_files fuel r dirPath files)"

definition deleteContents ::
  "nat \<Rightarrow> world \<Rightarrow> path LocationConfig \<Rightarrow> (world \<times> (error + unit)) option" where
  "deleteContents fuel w location =
     (if type location = Local then
        (case deleteLocalContents (local_fs w) (path location) of
           (l, res) \<Rightarrow> Some (w\<lparr>local_fs := l\<rparr>, res))
      else if \<not> connected location then Some (w, Inl (SSHConnectionRequired []))
      else
        (case deleteSSHContents fuel (remote_fs w) (path location) of
           None \<Rightarrow> None
         | Some (r, res) \<Rightarrow> Some (w\<lparr>remote_fs := r\<rparr>, res)))"

definition tree_of :: "world \<Rightarrow> path LocationConfig \<Rightarrow> node" where
  "tree_of w location = (if type location = Local then local_fs w else remote_fs w)"

definition set_tree :: "world \<Rightarrow> path LocationConfig \<Rightarrow> node \<Rightarrow> world" where
  "set_tree w location t =
     (if type location = Local then w\<lparr>local_fs := t\<rparr> else w\<lparr>remote_fs := t\<rparr>)"

text \<open>
  A directory \<open>srv/app\<close> with three files and two subdirectories, on the local machine
  and on the remote host, and the locations that name it.
\<close>

definition app_tree :: node where
  "app_tree =
     Dir [(''srv'', Dir [(''app'',
        Dir [(''index.html'', File ''<html>''), (''web.config'', File ''<configuration>''),
             (''bin'', Dir [(''app.dll'', File ''MZ''), (''app.xml'', File ''<doc>'')]),
             (''logs'', Dir []), (''favicon.ico'', File ''ico'')])])]"

definition app_world :: world where
  "app_world = \<lparr>local_fs = app_tree, remote_fs = app_tree\<rparr>"

definition local_app :: "path LocationConfig" where
  "local_app = \<lparr>type = Local, path = [''srv'', ''app''], ssh = None\<rparr>"

definition remote_app :: "path LocationConfig" where
  "remote_app =
     \<lparr>type = SSH, path = [''srv'', ''app''],
      ssh = Some \<lparr>host = ''web01'', port = 22, username = ''deploy'', password = None,
                  privateKey = Some ''C:/keys/deploy''\<rparr>\<rparr>"

definition emptied_tree :: node where
  "emptied_tree = Dir [(''srv'', Dir [(''app'', Dir [])])]"

subsection \<open>Copying\<close>










text \<open>
  The copy command of the remote shell (\<open>cp\<close>, or \<open>copy /y\<close> on Windows) for one file:
  the new tree and how the command ended. It copies a file to a path whose parent
  directory exists, or into the directory the path names.
\<close>

definition copy_command :: "node \<Rightarrow> path \<Rightarrow> path \<Rightarrow> node \<times> exec_event" where
  "copy_command r srcPath destPath =
     (case lookup r srcPath of
        Some (File x) \<Rightarrow>
          (let target = (case lookup r destPath of
                           Some (Dir ds) \<Rightarrow> destPath @ [last srcPath]
                         | _ \<Rightarrow> destPath)
           in case (if is_dir (lookup r target) then None else put target (File x) r) of
                None \<Rightarrow> (r, Closed 1 [] ''cannot create file'')
              | Some r' \<Rightarrow> (r', Closed 0 [] []))
      | _ \<Rightarrow> (r, Closed 1 [] ''cannot read file''))"




definition exists_at :: "world \<Rightarrow> path LocationConfig \<Rightarrow> error + bool" where
  "exists_at w location =
     (if type location = Local then Inr (pathExists (local_fs w) (path location))
      else if \<not> connected location then Inl (SSHConnectionRequired [])
      else Inr (stat (remote_fs w) (path location) \<noteq> None))"


text \<open>One file of \<open>copySpecificFiles\<close>, by the kinds of the two locations.\<close>

definition copy_one_file ::
  "world \<Rightarrow> path LocationConfig \<Rightarrow> path LocationConfig \<Rightarrow> path \<Rightarrow> path \<Rightarrow> world \<times> (error + unit)" where
  "copy_one_file w source dest srcFile destFile =
     (case (type source, type dest) of
        (Local, Local) \<Rightarrow>
          (case fs_copy (local_fs w) srcFile destFile of
             (l, res) \<Rightarrow> (w\<lparr>local_fs := l\<rparr>, res))
      | (Local, SSH) \<Rightarrow>
          if \<not> connected dest then (w, Inl (SSHConnectionRequired ''for destination''))
          else
            (case uploadFile (local_fs w) srcFile (remote_fs w) destFile of
               Inl e \<Rightarrow> (w, Inl e)
             | Inr r \<Rightarrow> (w\<lparr>remote_fs := r\<rparr>, Inr ()))
      | (SSH, Local) \<Rightarrow>
          if \<not> connected source then (w, Inl (SSHConnectionRequired ''for source''))
          else
            (case downloadFile (remote_fs w) srcFile (local_fs w) destFile of
               Inl e \<Rightarrow> (w, Inl e)
             | Inr l \<Rightarrow> (w\<lparr>local_fs := l\<rparr>, Inr ()))
      | (SSH, SSH) \<Rightarrow>
          if \<not> connected source then (w, Inl (SSHConnectionRequired ''for source''))
          else
            (case copy_command (remote_fs w) srcFile destFile of
               (r, event) \<Rightarrow>
                 (case exec event of
                    Inl stderr \<Rightarrow> (w\<lparr>remote_fs := r\<rparr>, Inl (CommandFailed stderr))
                  | Inr stdout \<Rightarrow> (w\<lparr>remote_fs := r\<rparr>, Inr ()))))"

fun copy_each_file ::
  "world \<Rightarrow> path LocationConfig \<Rightarrow> path LocationConfig \<Rightarrow> path \<Rightarrow> path \<Rightarrow> string list
   \<Rightarrow> world \<times> (error + nat)" where
  "copy_each_file w source dest srcFolderPath destFolderPath [] = (w, Inr 0)"
| "copy_each_file w source dest srcFolderPath destFolderPath (file # files) =
     (case exists_at w (source\<lparr>path := srcFolderPath @ [file]\<rparr>) of
        Inl e \<Rightarrow> (w, Inl e)
      | Inr False \<Rightarrow> (w, Inl (SourceFileDoesNotExist (srcFolderPath @ [file])))
      | Inr True \<Rightarrow>
          (case copy_one_file w source dest (srcFolderPath @ [file]) (destFolderPath @ [file]) of
             (w1, Inl e) \<Rightarrow> (w1, Inl e)
           | (w1, Inr u) \<Rightarrow>
               (case copy_each_file w1 source dest srcFolderPath destFolderPath files of
                  (w2, Inl e) \<Rightarrow> (w2, Inl e)
                | (w2, Inr count) \<Rightarrow> (w2, Inr (Suc count)))))"


text \<open>
  The loops of \<open>copySpecificFolders\<close> add up the counts: \<open>add_count\<close> runs the rest of a
  loop after a step that completed and adds the two counts; a step that threw ends the
  loop with its error and the world as it then is.
\<close>

definition add_count ::
  "(world \<times> (error + nat)) option \<Rightarrow> (world \<Rightarrow> (world \<times> (error + nat)) option)
   \<Rightarrow> (world \<times> (error + nat)) option" where
  "add_count step rest =
     (case step of
        None \<Rightarrow> None
      | Some (w1, Inl e) \<Rightarrow> Some (w1, Inl e)
      | Some (w1, Inr c) \<Rightarrow>
          (case rest w1 of
             None \<Rightarrow> None
           | Some (w2, Inl e) \<Rightarrow> Some (w2, Inl e)
           | Some (w2, Inr c') \<Rightarrow> Some (w2, Inr (c + c'))))"
















section \<open>Properties\<close>

text \<open>
  Claim C5. For a command that ran on an established session (its stream closed with an
  exit code, stdout and stderr), \<open>exec\<close> rejects with the captured stderr exactly when the
  exit code is non-zero and stderr is non-empty; in every other case, a non-zero exit
  with empty stderr among them, it resolves with the captured stdout.
\<close>

theorem exec_rejects_iff:
  "(exec (Closed code out err) = Inl err \<and> code \<noteq> 0 \<and> err \<noteq> []
    \<or> exec (Closed code out err) = Inr out \<and> (code = 0 \<or> err = []))
   \<and> ((\<exists>e. exec (Closed code out err) = Inl e) = (code \<noteq> 0 \<and> err \<noteq> []))"
  by simp

theorem exec_rejects_iff_witness:
  "exec (Closed 1 ''out'' []) = Inr ''out''
   \<and> exec (Closed 1 ''out'' ''boom'') = Inl ''boom''
   \<and> exec (Closed 0 ''out'' ''warn'') = Inr ''out''"
  using exec_rejects_iff [of 1 "''out''" "[]"]
        exec_rejects_iff [of 1 "''out''" "''boom''"]
        exec_rejects_iff [of 0 "''out''" "''warn''"]
  by simp

subsection \<open>The session cache\<close>

lemma string_of_nat_22: "string_of_nat 22 = ''22''"
  by code_simp

lemma ensureSSHConnection_local:
  "type l = Local \<Longrightarrow> ensureSSHConnection r l this = (this, Inr None)"
  by (simp add: ensureSSHConnection_def split: option.splits)

lemma ensureSSHConnection_cached:
  assumes "ensureSSHConnection r1 l1 this = (this', Inr (Some s))"
    and "ssh l1 = Some c1" and "ssh l2 = Some c2" and "type l2 = SSH"
    and "host c1 = host c2" and "port c1 = port c2"
  shows "ensureSSHConnection r2 l2 this' = (this', Inr (Some s))"
proof -
  have k: "connection_key c2 = connection_key c1"
    using assms(5,6) by (simp add: connection_key_def)
  have "map_of (sshConnections this') (connection_key c1) = Some s"
    using assms(1,2)
    by (auto simp: ensureSSHConnection_def Let_def map_add_def split: if_splits option.splits)
  then show ?thesis
    using assms(3,4) k by (simp add: ensureSSHConnection_def)
qed

lemma cache_inv_new: "cache_inv new_FileOpsService"
  by (simp add: cache_inv_def new_FileOpsService_def)

lemma cache_inv_ensure: "cache_inv this \<Longrightarrow> cache_inv (fst (ensureSSHConnection r l this))"
  by (auto simp: cache_inv_def ensureSSHConnection_def Let_def map_of_eq_None_iff
      split: option.splits)

lemma cache_inv_calls: "cache_inv this \<Longrightarrow> cache_inv (ensure_calls cs this)"
  by (induction cs arbitrary: this) (auto simp: cache_inv_ensure)

lemma distinct_occurs_once: "distinct xs \<Longrightarrow> length (filter ((=) k) xs) \<le> 1"
  by (induction xs) (auto simp: filter_empty_conv)

lemma digit_char_not_colon: "d < 10 \<Longrightarrow> digit_char d \<noteq> CHR '':''"
proof
  assume d: "d < 10" and "digit_char d = CHR '':''"
  then have "(of_char (digit_char d) :: nat) = of_char (CHR '':'')"
    by simp
  then show False
    using d by (simp add: digit_char_def)
qed

lemma string_of_nat_no_colon: "CHR '':'' \<notin> set (string_of_nat n)"
proof (induction n rule: string_of_nat.induct)
  case (1 n)
  show ?case
  proof (cases "n < 10")
    case True
    then show ?thesis
      using digit_char_not_colon [of n] by (subst string_of_nat.simps) auto
  next
    case False
    then show ?thesis
      using 1 digit_char_not_colon [of "n mod 10"] by (subst string_of_nat.simps) auto
  qed
qed

lemma digit_value_digit_char: "d < 10 \<Longrightarrow> digit_value (digit_char d) = d"
  by (simp add: digit_value_def digit_char_def)

lemma string_of_nat_value: "nat_of_string (string_of_nat n) = n"
  unfolding nat_of_string_def
proof (induction n rule: string_of_nat.induct)
  case (1 n)
  show ?case
  proof (cases "n < 10")
    case True
    then show ?thesis
      by (subst string_of_nat.simps) (simp add: digit_value_digit_char)
  next
    case False
    then show ?thesis
      using 1 by (subst string_of_nat.simps) (simp add: digit_value_digit_char)
  qed
qed

lemma string_of_nat_inj:
  assumes "string_of_nat n = string_of_nat m"
  shows "n = m"
proof -
  have "n = nat_of_string (string_of_nat n)"
    by (simp only: string_of_nat_value)
  also have "\<dots> = nat_of_string (string_of_nat m)"
    by (simp only: assms)
  also have "\<dots> = m"
    by (simp only: string_of_nat_value)
  finally show ?thesis .
qed

lemma split_at_last:
  assumes "xs @ c # ys = xs' @ c # ys'" and "c \<notin> set ys" and "c \<notin> set ys'"
  shows "xs = xs' \<and> ys = ys'"
proof -
  have "takeWhile (\<lambda>x. x \<noteq> c) (rev (xs @ c # ys)) = rev ys"
    using assms(2) by (auto simp: takeWhile_tail takeWhile_eq_all_conv)
  moreover have "takeWhile (\<lambda>x. x \<noteq> c) (rev (xs' @ c # ys')) = rev ys'"
    using assms(3) by (auto simp: takeWhile_tail takeWhile_eq_all_conv)
  ultimately have "ys = ys'"
    using assms(1) by simp
  then show ?thesis
    using assms(1) by simp
qed

lemma connection_key_inj:
  "(connection_key c1 = connection_key c2) = (host c1 = host c2 \<and> port c1 = port c2)"
proof
  assume "connection_key c1 = connection_key c2"
  then have "host c1 @ CHR '':'' # string_of_nat (port c1)
      = host c2 @ CHR '':'' # string_of_nat (port c2)"
    by (simp add: connection_key_def)
  from split_at_last [OF this string_of_nat_no_colon string_of_nat_no_colon]
  show "host c1 = host c2 \<and> port c1 = port c2"
    using string_of_nat_inj by blast
next
  assume "host c1 = host c2 \<and> port c1 = port c2"
  then show "connection_key c1 = connection_key c2"
    by (simp add: connection_key_def)
qed

lemma sessions_inv_new: "sessions_inv new_FileOpsService"
  by (simp add: sessions_inv_def new_FileOpsService_def)

lemma sessions_inv_ensure:
  "sessions_inv this \<Longrightarrow> sessions_inv (fst (ensureSSHConnection r l this))"
  by (auto simp: sessions_inv_def ensureSSHConnection_def Let_def map_of_eq_None_iff
      less_Suc_eq split: option.splits)

lemma sessions_inv_calls: "sessions_inv this \<Longrightarrow> sessions_inv (ensure_calls cs this)"
  by (induction cs arbitrary: this) (auto simp: sessions_inv_ensure)

lemma cached_after:
  "ensureSSHConnection r l this = (this', Inr (Some s)) \<Longrightarrow> ssh l = Some c
   \<Longrightarrow> map_of (sshConnections this') (connection_key c) = Some s"
  by (auto simp: ensureSSHConnection_def Let_def map_add_def split: if_splits option.splits)

lemma cached_stays:
  "map_of (sshConnections this) k = Some s
   \<Longrightarrow> map_of (sshConnections (fst (ensureSSHConnection r l this))) k = Some s"
  by (auto simp: ensureSSHConnection_def Let_def map_add_def split: if_splits option.splits)

lemma cached_stays_calls:
  "map_of (sshConnections this) k = Some s
   \<Longrightarrow> map_of (sshConnections (ensure_calls cs this)) k = Some s"
  by (induction cs arbitrary: this) (auto simp: cached_stays)

lemma one_key_per_session:
  assumes "sessions_inv this" and "map_of (sshConnections this) k1 = Some s"
    and "map_of (sshConnections this) k2 = Some s"
  shows "k1 = k2"
proof -
  have "(k1, s) \<in> set (sshConnections this)" "(k2, s) \<in> set (sshConnections this)"
    using assms(2,3) by (auto dest: map_of_SomeD)
  moreover have "distinct (map snd (sshConnections this))"
    using assms(1) by (simp add: sessions_inv_def)
  ultimately show ?thesis
    by (metis eq_key_imp_eq_value prod.collapse distinct_map inj_onD snd_conv fst_conv)
qed

lemma string_of_nat_2222: "string_of_nat 2222 = ''2222''"
  by code_simp

text \<open>
  Claim C9. The cache is keyed by \<open>host:port\<close> alone. (1) For a local location
  \<open>ensureSSHConnection\<close> returns null and leaves the service as it is. (2) Once a call for
  a location has returned a session, a call for any remote location with the same host
  and port returns that same session and opens nothing, whatever its user name,
  credentials or path, and whatever a connect would do. (3) In a run of calls on a fresh
  service, two calls that return a session return the same session exactly when their
  locations have the same host and the same port: another host or another port gets a
  session of its own. (4) Two endpoints have the same key exactly when they have the same
  host and the same port. (5) In a run of calls on a fresh service, no key \<open>host:port\<close> is
  connected successfully more than once.
\<close>

theorem session_cache_keyed_by_host_port:
  "(type l = Local \<longrightarrow> ensureSSHConnection r l this = (this, Inr None))
   \<and> (ensureSSHConnection r1 l1 this = (this', Inr (Some s)) \<and> ssh l1 = Some c1
        \<and> ssh l2 = Some c2 \<and> type l2 = SSH \<and> host c1 = host c2 \<and> port c1 = port c2
      \<longrightarrow> ensureSSHConnection r2 l2 this' = (this', Inr (Some s)))
   \<and> (ensureSSHConnection ra la (ensure_calls before new_FileOpsService) = (ta, Inr (Some sa))
        \<and> ssh la = Some ca
        \<and> ensureSSHConnection rb lb (ensure_calls between ta) = (tb, Inr (Some sb))
        \<and> ssh lb = Some cb
      \<longrightarrow> (sa = sb) = (host ca = host cb \<and> port ca = port cb))
   \<and> (connection_key k1 = connection_key k2) = (host k1 = host k2 \<and> port k1 = port k2)
   \<and> length (filter ((=) (connection_key c)) (opened (ensure_calls cs new_FileOpsService))) \<le> 1"
proof (intro conjI impI)
  assume "type l = Local"
  then show "ensureSSHConnection r l this = (this, Inr None)"
    by (rule ensureSSHConnection_local)
next
  assume a: "ensureSSHConnection r1 l1 this = (this', Inr (Some s)) \<and> ssh l1 = Some c1
        \<and> ssh l2 = Some c2 \<and> type l2 = SSH \<and> host c1 = host c2 \<and> port c1 = port c2"
  then show "ensureSSHConnection r2 l2 this' = (this', Inr (Some s))"
    using ensureSSHConnection_cached [of r1 l1 this this' s c1 l2 c2 r2] by blast
next
  assume a: "ensureSSHConnection ra la (ensure_calls before new_FileOpsService) = (ta, Inr (Some sa))
        \<and> ssh la = Some ca
        \<and> ensureSSHConnection rb lb (ensure_calls between ta) = (tb, Inr (Some sb))
        \<and> ssh lb = Some cb"
  let ?T = "ensure_calls before new_FileOpsService"
  have first: "ensureSSHConnection ra la ?T = (ta, Inr (Some sa))" and ca: "ssh la = Some ca"
    and second: "ensureSSHConnection rb lb (ensure_calls between ta) = (tb, Inr (Some sb))"
    and cb: "ssh lb = Some cb"
    using a by blast+
  have "sessions_inv ?T"
    by (rule sessions_inv_calls [OF sessions_inv_new])
  then have "sessions_inv (fst (ensureSSHConnection ra la ?T))"
    by (rule sessions_inv_ensure)
  then have "sessions_inv ta"
    using first by simp
  then have "sessions_inv (ensure_calls between ta)"
    by (rule sessions_inv_calls)
  then have "sessions_inv (fst (ensureSSHConnection rb lb (ensure_calls between ta)))"
    by (rule sessions_inv_ensure)
  then have inv: "sessions_inv tb"
    using second by simp
  have "map_of (sshConnections ta) (connection_key ca) = Some sa"
    using first ca by (rule cached_after)
  then have "map_of (sshConnections (ensure_calls between ta)) (connection_key ca) = Some sa"
    by (rule cached_stays_calls)
  then have "map_of (sshConnections (fst (ensureSSHConnection rb lb (ensure_calls between ta))))
      (connection_key ca) = Some sa"
    by (rule cached_stays)
  then have a_in: "map_of (sshConnections tb) (connection_key ca) = Some sa"
    using second by simp
  have b_in: "map_of (sshConnections tb) (connection_key cb) = Some sb"
    using second cb by (rule cached_after)
  show "(sa = sb) = (host ca = host cb \<and> port ca = port cb)"
  proof
    assume "sa = sb"
    then have "connection_key ca = connection_key cb"
      using one_key_per_session [OF inv a_in] b_in by simp
    then show "host ca = host cb \<and> port ca = port cb"
      by (simp add: connection_key_inj)
  next
    assume "host ca = host cb \<and> port ca = port cb"
    then have "connection_key ca = connection_key cb"
      by (simp add: connection_key_inj)
    then show "sa = sb"
      using a_in b_in by simp
  qed
next
  show "(connection_key k1 = connection_key k2) = (host k1 = host k2 \<and> port k1 = port k2)"
    by (rule connection_key_inj)
next
  have "cache_inv (ensure_calls cs new_FileOpsService)"
    by (rule cache_inv_calls [OF cache_inv_new])
  then show "length (filter ((=) (connection_key c)) (opened (ensure_calls cs new_FileOpsService))) \<le> 1"
    using distinct_occurs_once [of "opened (ensure_calls cs new_FileOpsService)" "connection_key c"]
    by (simp add: cache_inv_def)
qed

theorem session_cache_keyed_by_host_port_witness:
  "ensureSSHConnection None staging_web01 new_FileOpsService
     = (\<lparr>sshConnections = [(''web01:22'', 0)], created = 1, opened = [''web01:22'']\<rparr>,
        Inr (Some 0))
   \<and> ensureSSHConnection (Some ''refused'') destination_web01
        \<lparr>sshConnections = [(''web01:22'', 0)], created = 1, opened = [''web01:22'']\<rparr>
     = (\<lparr>sshConnections = [(''web01:22'', 0)], created = 1, opened = [''web01:22'']\<rparr>,
        Inr (Some 0))
   \<and> ensureSSHConnection None local_source new_FileOpsService = (new_FileOpsService, Inr None)
   \<and> ensureSSHConnection None database_db01
        (ensure_calls [(None, local_source)]
           \<lparr>sshConnections = [(''web01:22'', 0)], created = 1, opened = [''web01:22'']\<rparr>)
     = (\<lparr>sshConnections = [(''web01:22'', 0), (''db01:2222'', 1)], created = 2,
         opened = [''web01:22'', ''db01:2222'']\<rparr>, Inr (Some 1))
   \<and> host (the (ssh staging_web01)) \<noteq> host (the (ssh database_db01))
   \<and> length (filter ((=) ''web01:22'')
        (opened (ensure_calls [(None, staging_web01), (None, destination_web01)]
                   new_FileOpsService))) = 1"
proof -
  let ?S = "\<lparr>sshConnections = [(''web01:22'', 0)], created = 1, opened = [''web01:22'']\<rparr>"
  let ?S2 = "\<lparr>sshConnections = [(''web01:22'', 0), (''db01:2222'', 1)], created = 2,
         opened = [''web01:22'', ''db01:2222'']\<rparr>"
  let ?deploy = "\<lparr>host = ''web01'', port = 22, username = ''deploy'', password = None,
                  privateKey = Some ''C:/keys/deploy''\<rparr>"
  let ?admin = "\<lparr>host = ''web01'', port = 22, username = ''admin'', password = Some ''pw'',
            privateKey = None\<rparr>"
  let ?db = "\<lparr>host = ''db01'', port = 2222, username = ''deploy'', password = None,
                  privateKey = Some ''C:/keys/deploy''\<rparr>"
  have key: "connection_key ?deploy = ''web01:22''"
    by (simp add: connection_key_def string_of_nat_22)
  have first: "ensureSSHConnection None staging_web01 new_FileOpsService = (?S, Inr (Some 0))"
    by (simp add: ensureSSHConnection_def staging_web01_def new_FileOpsService_def
        connection_key_def string_of_nat_22 Let_def)
  have idle: "ensure_calls [(None, local_source)] ?S = ?S"
    by (simp add: ensureSSHConnection_def local_source_def)
  have other: "ensureSSHConnection None database_db01 (ensure_calls [(None, local_source)] ?S)
      = (?S2, Inr (Some 1))"
    unfolding idle
    by (simp add: ensureSSHConnection_def database_db01_def connection_key_def
        string_of_nat_2222 Let_def)
  have loc: "type local_source = Local"
    by (simp add: local_source_def)
  have hyp: "ensureSSHConnection None staging_web01 new_FileOpsService = (?S, Inr (Some 0))
      \<and> ssh staging_web01 = Some ?deploy \<and> ssh destination_web01 = Some ?admin
      \<and> type destination_web01 = SSH \<and> host ?deploy = host ?admin \<and> port ?deploy = port ?admin"
    using first by (simp add: staging_web01_def destination_web01_def)
  have hyp2: "ensureSSHConnection None staging_web01 (ensure_calls [] new_FileOpsService)
        = (?S, Inr (Some 0))
      \<and> ssh staging_web01 = Some ?deploy
      \<and> ensureSSHConnection None database_db01 (ensure_calls [(None, local_source)] ?S)
        = (?S2, Inr (Some 1))
      \<and> ssh database_db01 = Some ?db"
    using first other by (simp add: staging_web01_def database_db01_def)
  note inst = session_cache_keyed_by_host_port
      [where l = local_source and r = None and this = new_FileOpsService
        and ?r1.0 = None and ?l1.0 = staging_web01 and this' = ?S and s = 0 and ?c1.0 = ?deploy
        and ?l2.0 = destination_web01 and ?c2.0 = ?admin and ?r2.0 = "Some ''refused''"
        and ra = None and la = staging_web01 and before = "[]" and ta = ?S and sa = 0
        and ca = ?deploy and rb = None and lb = database_db01
        and between = "[(None, local_source)]" and tb = ?S2 and sb = 1 and cb = ?db
        and c = ?deploy and cs = "[(None, staging_web01), (None, destination_web01)]"]
  have second: "ensureSSHConnection (Some ''refused'') destination_web01 ?S = (?S, Inr (Some 0))"
    using inst hyp by blast
  have third: "ensureSSHConnection None local_source new_FileOpsService = (new_FileOpsService, Inr None)"
    using inst loc by blast
  have "((0::nat) = 1) = (host ?deploy = host ?db \<and> port ?deploy = port ?db)"
    using inst hyp2 by blast
  then have own: "host (the (ssh staging_web01)) \<noteq> host (the (ssh database_db01))"
    by (simp add: staging_web01_def database_db01_def)
  have run: "opened (ensure_calls [(None, staging_web01), (None, destination_web01)]
                   new_FileOpsService) = [''web01:22'']"
    by (simp add: ensureSSHConnection_def staging_web01_def destination_web01_def
        new_FileOpsService_def connection_key_def string_of_nat_22 Let_def)
  show ?thesis
    using first second third other own run by simp
qed

subsection \<open>The deployment orchestrator\<close>

lemma deploy_try_block_completed:
  "deploy_try_block env = (errs, Inr u) \<Longrightarrow> errs = []"
  unfolding deploy_try_block_def then_step_def step_compress_def step_transfer_def
    step_decompress_def step_bats_def step_cleanup_def push_and_rethrow_def and_then_def
  by (simp split: option.splits sum.splits prod.splits if_splits)

text \<open>
  Whatever \<open>deployCommand\<close> returns has no error in it: the only way to the \<open>return\<close>
  statement is a \<open>try\<close> block in which no handler ran.
\<close>

lemma deployCommand_returns:
  "deployCommand env = Inr r \<Longrightarrow> filesDeployed r = 0 \<and> success r \<and> errors r = []"
  using deploy_try_block_completed [of env]
  by (auto simp: deployCommand_def and_then_def split: option.splits sum.splits prod.splits)

lemma steps_ignore_count:
  "step_compress (env\<lparr>copyToTemp := Inr n\<rparr>) = step_compress (env\<lparr>copyToTemp := Inr m\<rparr>)"
  "step_transfer (env\<lparr>copyToTemp := c\<rparr>) = step_transfer env"
  "step_decompress (env\<lparr>copyToTemp := c\<rparr>) = step_decompress env"
  "step_bats (env\<lparr>copyToTemp := c\<rparr>) = step_bats env"
  "step_cleanup (env\<lparr>copyToTemp := c\<rparr>) = step_cleanup env"
  by (simp_all add: fun_eq_iff step_compress_def step_transfer_def step_decompress_def
      step_bats_def step_cleanup_def split: option.splits)

lemma deploy_try_block_ignores_count:
  "deploy_try_block (env\<lparr>copyToTemp := Inr n\<rparr>) = deploy_try_block (env\<lparr>copyToTemp := Inr m\<rparr>)"
  unfolding deploy_try_block_def
  by (simp only: steps_ignore_count(2-5) steps_ignore_count(1) [where env=env and n=n and m=m])
    simp

lemma deployCommand_ignores_count:
  "deployCommand (env\<lparr>copyToTemp := Inr n\<rparr>) = deployCommand (env\<lparr>copyToTemp := Inr m\<rparr>)"
  unfolding deployCommand_def deploy_try_block_ignores_count [where env=env and n=n and m=m]
  by (simp split: prod.splits sum.splits)

lemmas deploy_defs = deployCommand_def deploy_try_block_def then_step_def step_compress_def
  step_transfer_def step_decompress_def step_bats_def step_cleanup_def push_and_rethrow_def
  and_then_def

text \<open>
  Claim C10. Every result \<open>deployCommand\<close> returns has \<open>filesDeployed = 0\<close>, and the count
  that the staging copy reports has no influence on what \<open>deployCommand\<close> does: two runs
  that differ only in that count end the same way.
\<close>

theorem filesDeployed_always_zero:
  "(deployCommand env = Inr r \<longrightarrow> filesDeployed r = 0)
   \<and> deployCommand (env\<lparr>copyToTemp := Inr n\<rparr>) = deployCommand (env\<lparr>copyToTemp := Inr m\<rparr>)"
  using deployCommand_returns [of env r]
    deployCommand_ignores_count [where env=env and n=n and m=m] by blast

theorem filesDeployed_always_zero_witness:
  "deployCommand completed_run
     = Inr \<lparr>success = True, startTime = 100, endTime = 160, filesDeployed = 0, errors = []\<rparr>
   \<and> copyToTemp completed_run = Inr 42
   \<and> filesDeployed \<lparr>success = True, startTime = 100, endTime = 160, filesDeployed = 0,
        errors = []\<rparr> = 0"
proof -
  have run: "deployCommand completed_run
     = Inr \<lparr>success = True, startTime = 100, endTime = 160, filesDeployed = 0, errors = []\<rparr>"
    by (simp add: deploy_defs completed_run_def)
  then show ?thesis
    using filesDeployed_always_zero [where env=completed_run and n=1 and m=2
        and r="\<lparr>success = True, startTime = 100, endTime = 160, filesDeployed = 0, errors = []\<rparr>"]
    by (simp add: completed_run_def)
qed

text \<open>
  Claim C2 says that \<open>deployCommand\<close> never throws and returns a result with
  \<open>success = false\<close> when a stage fails. The code does otherwise: in the run whose staging
  copy throws for a missing source folder, the handler pushes the message and throws
  again, the \<open>finally\<close> block closes the connections, and the error leaves
  \<open>deployCommand\<close>; no result is returned.
\<close>

theorem deployCommand_throws_on_stage_failure:
  "deployCommand missing_folder_run = Inl ''Source folder does not exist: /srv/app/bin''"
  by (simp add: deploy_defs completed_run_def missing_folder_run_def)

subsection \<open>Backup rotation\<close>

lemma delete_each_succeeds:
  "(\<And>b. b \<in> set bs \<Longrightarrow> rm b = None)
   \<Longrightarrow> delete_each rm bs dir = (filter (\<lambda>x. x \<notin> set bs) dir, Inr ())"
proof (induction bs arbitrary: dir)
  case Nil
  then show ?case by simp
next
  case (Cons b bs)
  have "filter (\<lambda>x. x \<notin> set bs) (removeAll b dir) = filter (\<lambda>x. x \<notin> set (b # bs)) dir"
    by (induction dir) auto
  with Cons show ?case by simp
qed

lemma sorted_wrt_take_drop:
  "sorted_wrt P xs \<Longrightarrow> x \<in> set (take k xs) \<Longrightarrow> y \<in> set (drop k xs) \<Longrightarrow> P x y"
  using sorted_wrt_append [of P "take k xs" "drop k xs"] by simp

lemma set_insert_by: "set (insert_by f a bs) = insert a (set bs)"
  by (induction bs) auto

lemma length_insert_by: "length (insert_by f a bs) = Suc (length bs)"
  by (induction bs) auto

lemma distinct_insert_by: "distinct (insert_by f a bs) = (a \<notin> set bs \<and> distinct bs)"
  by (induction bs) (auto simp: set_insert_by)

lemma sorted_insert_by:
  assumes "consistent f"
  shows "sorted_wrt (\<lambda>a b. f a b \<le> 0) bs \<Longrightarrow> sorted_wrt (\<lambda>a b. f a b \<le> 0) (insert_by f a bs)"
proof (induction bs)
  case Nil
  then show ?case by simp
next
  case (Cons b bs)
  have total: "\<And>x y. f x y \<le> 0 \<or> f y x \<le> 0"
    and trans: "\<And>x y z. f x y \<le> 0 \<Longrightarrow> f y z \<le> 0 \<Longrightarrow> f x z \<le> 0"
    using assms unfolding consistent_def by blast+
  show ?case
  proof (cases "f a b \<le> 0")
    case True
    then have "\<forall>y \<in> set bs. f a y \<le> 0"
      using Cons.prems trans by auto
    then show ?thesis
      using True Cons.prems by simp
  next
    case False
    then have "f b a \<le> 0"
      using total by blast
    then show ?thesis
      using False Cons by (auto simp: set_insert_by)
  qed
qed

lemma set_sort_by: "set (sort_by f xs) = set xs"
  by (induction xs) (simp_all add: sort_by_def set_insert_by)

lemma length_sort_by: "length (sort_by f xs) = length xs"
  by (induction xs) (simp_all add: sort_by_def length_insert_by)

lemma distinct_sort_by: "distinct (sort_by f xs) = distinct xs"
  by (induction xs) (simp_all add: sort_by_def distinct_insert_by set_sort_by [unfolded sort_by_def])

lemma sorted_sort_by: "consistent f \<Longrightarrow> sorted_wrt (\<lambda>a b. f a b \<le> 0) (sort_by f xs)"
  by (induction xs) (simp_all add: sort_by_def sorted_insert_by)

lemma survivors_set:
  assumes "distinct bs"
  shows "set (filter (\<lambda>x. x \<notin> set (take k (sort_by f bs))) bs) = set (drop k (sort_by f bs))"
proof -
  have d: "distinct (sort_by f bs)" using assms by (simp add: distinct_sort_by)
  have "set (take k (sort_by f bs)) \<inter> set (drop k (sort_by f bs)) = {}"
    using d distinct_append [of "take k (sort_by f bs)" "drop k (sort_by f bs)"] by simp
  moreover have "set (take k (sort_by f bs)) \<union> set (drop k (sort_by f bs)) = set bs"
    using set_append [of "take k (sort_by f bs)" "drop k (sort_by f bs)"] by (simp add: set_sort_by)
  ultimately show ?thesis by auto
qed

lemma survivors_length:
  assumes "distinct bs"
  shows "length (filter (\<lambda>x. x \<notin> set (take k (sort_by f bs))) bs) = length bs - k"
proof -
  have "distinct (filter (\<lambda>x. x \<notin> set (take k (sort_by f bs))) bs)" using assms by simp
  then have "length (filter (\<lambda>x. x \<notin> set (take k (sort_by f bs))) bs)
      = card (set (drop k (sort_by f bs)))"
    using survivors_set [OF assms, of k f] distinct_card by metis
  also have "\<dots> = length (drop k (sort_by f bs))"
    using assms by (simp add: distinct_card distinct_sort_by)
  finally show ?thesis by (simp add: length_sort_by)
qed

lemma rotate_result:
  assumes "\<forall>b. rm b = None"
  shows "rotateBackups f rm N dir =
     (if length (getBackupsList dir) \<le> N then dir
      else filter (\<lambda>x. x \<notin> set (take (length (getBackupsList dir) - N)
                                    (sort_by f (getBackupsList dir)))) dir,
      Inr ())"
  using assms by (simp add: rotateBackups_def Let_def delete_each_succeeds)

lemma backups_after:
  "getBackupsList (filter (\<lambda>x. x \<notin> D) dir) = filter (\<lambda>x. x \<notin> D) (getBackupsList dir)"
  by (simp add: getBackupsList_def conj_commute cong: conj_cong)

lemma others_after:
  "\<forall>x\<in>D. prefix ''backup-'' x \<Longrightarrow>
   filter (\<lambda>x. \<not> prefix ''backup-'' x) (filter (\<lambda>x. x \<notin> D) dir)
     = filter (\<lambda>x. \<not> prefix ''backup-'' x) dir"
  by (induction dir) auto

lemma consistent_code_unit_compare: "consistent code_unit_compare"
  by (auto simp: consistent_def code_unit_compare_def)

lemma consistent_caseless_compare: "consistent caseless_compare"
  using consistent_code_unit_compare
  unfolding consistent_def caseless_compare_def by blast

text \<open>
  Claim C3. Let the listing of the backup root have no name twice, let every deletion
  succeed, and let \<open>localeCompare\<close> be consistent. Then, for every retention count \<open>N\<close>
  (those with \<open>N \<ge> 1\<close> among them) and a root with \<open>M\<close> backup entries, rotation ends
  without error and leaves exactly \<open>min M N\<close> backup entries, all of them entries that
  were there before; every deleted backup comes, in the order of \<open>localeCompare\<close>, not
  after any backup that stays, and where \<open>localeCompare\<close> orders the names of the
  backups as their characters do (as it does for the names of one length that
  \<open>createBackup\<close> makes from time stamps) every deleted backup is smaller than every backup
  that stays, so that those that stay are the \<open>N\<close> newest; entries that are not backups
  stay; and when \<open>M \<le> N\<close> the root is left as it was.
\<close>

theorem rotateBackups_keeps_newest:
  assumes "distinct dir" and "\<forall>b. rm b = None" and "consistent localeCompare"
  shows "snd (rotateBackups localeCompare rm N dir) = Inr ()
     \<and> length (getBackupsList (fst (rotateBackups localeCompare rm N dir)))
         = min (length (getBackupsList dir)) N
     \<and> set (getBackupsList (fst (rotateBackups localeCompare rm N dir))) \<subseteq> set (getBackupsList dir)
     \<and> (\<forall>d \<in> set (getBackupsList dir) - set (getBackupsList (fst (rotateBackups localeCompare rm N dir))).
          \<forall>s \<in> set (getBackupsList (fst (rotateBackups localeCompare rm N dir))).
            localeCompare d s \<le> 0
            \<and> ((\<forall>a \<in> set (getBackupsList dir). \<forall>b \<in> set (getBackupsList dir).
                   (localeCompare a b \<le> 0) = (a \<le> b)) \<longrightarrow> d < s))
     \<and> filter (\<lambda>x. \<not> prefix ''backup-'' x) (fst (rotateBackups localeCompare rm N dir))
          = filter (\<lambda>x. \<not> prefix ''backup-'' x) dir
     \<and> (length (getBackupsList dir) \<le> N \<longrightarrow> fst (rotateBackups localeCompare rm N dir) = dir)"
proof (cases "length (getBackupsList dir) \<le> N")
  case True
  then show ?thesis
    using assms(2) by (simp add: rotate_result)
next
  case False
  let ?f = localeCompare
  let ?bs = "getBackupsList dir"
  let ?k = "length ?bs - N"
  let ?D = "set (take ?k (sort_by ?f ?bs))"
  have db: "distinct ?bs" using assms(1) by (simp add: getBackupsList_def)
  have res: "rotateBackups ?f rm N dir = (filter (\<lambda>x. x \<notin> ?D) dir, Inr ())"
    using False assms(2) by (simp add: rotate_result)
  have after: "getBackupsList (fst (rotateBackups ?f rm N dir)) = filter (\<lambda>x. x \<notin> ?D) ?bs"
    by (simp add: res backups_after)
  have len: "length (filter (\<lambda>x. x \<notin> ?D) ?bs) = min (length ?bs) N"
    using survivors_length [OF db, of ?k ?f] False by simp
  have surv: "set (filter (\<lambda>x. x \<notin> ?D) ?bs) = set (drop ?k (sort_by ?f ?bs))"
    by (rule survivors_set [OF db])
  have Dsub: "?D \<subseteq> set ?bs"
    using set_take_subset [of ?k "sort_by ?f ?bs"] by (simp add: set_sort_by)
  have sorted: "sorted_wrt (\<lambda>a b. ?f a b \<le> 0) (sort_by ?f ?bs)"
    using assms(3) by (rule sorted_sort_by)
  have order: "\<forall>d \<in> set ?bs - set (filter (\<lambda>x. x \<notin> ?D) ?bs).
          \<forall>s \<in> set (filter (\<lambda>x. x \<notin> ?D) ?bs).
            ?f d s \<le> 0
            \<and> ((\<forall>a \<in> set ?bs. \<forall>b \<in> set ?bs. (?f a b \<le> 0) = (a \<le> b)) \<longrightarrow> d < s)"
  proof (intro ballI conjI impI)
    fix d s
    assume d: "d \<in> set ?bs - set (filter (\<lambda>x. x \<notin> ?D) ?bs)"
      and s: "s \<in> set (filter (\<lambda>x. x \<notin> ?D) ?bs)"
    from d have dD: "d \<in> ?D" by auto
    moreover from s have "s \<in> set (drop ?k (sort_by ?f ?bs))" unfolding surv .
    ultimately show le: "?f d s \<le> 0"
      using sorted_wrt_take_drop [OF sorted] by blast
    assume agree: "\<forall>a \<in> set ?bs. \<forall>b \<in> set ?bs. (?f a b \<le> 0) = (a \<le> b)"
    have "d \<in> set ?bs" "s \<in> set ?bs" "d \<noteq> s"
      using d s by auto
    then show "d < s"
      using agree le by auto
  qed
  have others: "filter (\<lambda>x. \<not> prefix ''backup-'' x) (fst (rotateBackups ?f rm N dir))
          = filter (\<lambda>x. \<not> prefix ''backup-'' x) dir"
  proof -
    have "\<forall>x\<in>?D. prefix ''backup-'' x"
      using Dsub by (auto simp: getBackupsList_def)
    from others_after [OF this, of dir] show ?thesis
      by (simp only: res fst_conv)
  qed
  have sub: "set (filter (\<lambda>x. x \<notin> ?D) ?bs) \<subseteq> set ?bs"
    by auto
  have ok: "snd (rotateBackups ?f rm N dir) = Inr ()"
    by (simp only: res snd_conv)
  show ?thesis
    unfolding after using ok len sub order others False by blast
qed

lemma code_unit_compare_le: "(code_unit_compare a b \<le> 0) = (a \<le> b)"
  by (auto simp: code_unit_compare_def)

theorem rotateBackups_keeps_newest_witness:
  "rotateBackups code_unit_compare (\<lambda>_. None) 3 five_backups
       = ([''backup-2024-03-01T10-00-00-000Z'', ''readme.txt'',
           ''backup-2024-05-01T10-00-00-000Z'', ''backup-2024-04-01T10-00-00-000Z''], Inr ())
   \<and> length (getBackupsList five_backups) = 5
   \<and> length (getBackupsList (fst (rotateBackups code_unit_compare (\<lambda>_. None) 3 five_backups))) = 3
   \<and> ''backup-2024-02-01T10-00-00-000Z'' < ''backup-2024-03-01T10-00-00-000Z''
   \<and> rotateBackups caseless_compare (\<lambda>_. None) 2 [''backup-B'', ''backup-a'', ''backup-c'']
       = ([''backup-B'', ''backup-c''], Inr ())
   \<and> caseless_compare ''backup-a'' ''backup-B'' \<le> 0"
proof -
  let ?rm = "\<lambda>_::string. None::string option"
  have d: "distinct five_backups"
    by code_simp
  have r: "\<forall>b. ?rm b = None"
    by simp
  have e: "rotateBackups code_unit_compare ?rm 3 five_backups
       = ([''backup-2024-03-01T10-00-00-000Z'', ''readme.txt'',
           ''backup-2024-05-01T10-00-00-000Z'', ''backup-2024-04-01T10-00-00-000Z''], Inr ())"
    by code_simp
  have m: "length (getBackupsList five_backups) = 5"
    by code_simp
  note five = rotateBackups_keeps_newest [OF d r consistent_code_unit_compare, of 3]
  have n: "length (getBackupsList (fst (rotateBackups code_unit_compare ?rm 3 five_backups))) = 3"
    using five m by simp
  have gone: "''backup-2024-02-01T10-00-00-000Z''
      \<in> set (getBackupsList five_backups)
        - set (getBackupsList (fst (rotateBackups code_unit_compare ?rm 3 five_backups)))"
    unfolding e by code_simp
  have kept: "''backup-2024-03-01T10-00-00-000Z''
      \<in> set (getBackupsList (fst (rotateBackups code_unit_compare ?rm 3 five_backups)))"
    unfolding e by code_simp
  have o: "''backup-2024-02-01T10-00-00-000Z'' < ''backup-2024-03-01T10-00-00-000Z''"
    using five gone kept code_unit_compare_le by blast
  let ?mixed = "[''backup-B'', ''backup-a'', ''backup-c'']"
  have d2: "distinct ?mixed"
    by simp
  have e2: "rotateBackups caseless_compare ?rm 2 ?mixed = ([''backup-B'', ''backup-c''], Inr ())"
    by code_simp
  note mixed = rotateBackups_keeps_newest [OF d2 r consistent_caseless_compare, of 2]
  have gone2: "''backup-a''
      \<in> set (getBackupsList ?mixed) - set (getBackupsList (fst (rotateBackups caseless_compare ?rm 2 ?mixed)))"
    unfolding e2 by code_simp
  have kept2: "''backup-B'' \<in> set (getBackupsList (fst (rotateBackups caseless_compare ?rm 2 ?mixed)))"
    unfolding e2 by code_simp
  have o2: "caseless_compare ''backup-a'' ''backup-B'' \<le> 0"
    using mixed gone2 kept2 by blast
  show ?thesis
    using e m n o e2 o2 by blast
qed

subsection \<open>The generated scripts\<close>

lemma string_of_nat_0: "string_of_nat 0 = ''0''"
  by code_simp

lemma string_of_nat_1: "string_of_nat (Suc 0) = ''1''"
  by code_simp

lemma restore_program_renders:
  "render_script (restore_program (path destination) (backup_path backup)
       (slashes_to_backslashes (path_join (path staging) ''restore.log'')))
     = restore_lines path_join staging destination backup"
  by (simp add: render_script_def restore_program_def restore_lines_def Let_def render_test_def
      bar_def string_of_nat_0 string_of_nat_1)

lemma shell_simps [simp]:
  "effects (assign v x s) = effects s"
  "errorlevel (assign v x s) = errorlevel s"
  "counter (assign v x s) = counter s"
  "counter (record_effect e s) = counter s"
  "counter (external h e s) = counter s"
  "vars (assign v x s) w = (if w = v then (if x = [] then None else Some x) else vars s w)"
  "effects (record_effect e s) = effects s @ [e]"
  "errorlevel (record_effect e s) = errorlevel s"
  "vars (record_effect e s) = vars s"
  "effects (external h e s) = effects s @ [e]"
  "errorlevel (external h e s) = exit_code h (effects s) e"
  "vars (external h e s) = vars s"
  by (simp_all add: assign_def record_effect_def external_def)

lemma each_already_defined:
  "vars s ''latest_backup'' \<noteq> None
   \<Longrightarrow> run_each h bind names [IfDo True (Defined ''latest_backup'') (SetVar ''latest_backup'' ''%%F'')] s
       = Next s"
  by (induction names) (simp_all add: holds_def)

lemma restore_run_no_folder:
  assumes "effects s = []" and "\<not> exists_on h [] ''%backup_dir%''"
  shows "\<exists>s'. run_script (Suc (Suc fuel)) h (restore_program destDir backupDir logfile) s
                = Some (1, s') \<and> effects s' = restore_error_log"
  using assms
  by (simp add: run_script_def restore_program_def holds_def restore_error_log_def)

lemma restore_run_no_backup:
  assumes "effects s = []" and "backups_on h [] = []"
  shows "\<exists>s'. run_script (Suc (Suc fuel)) h (restore_program destDir backupDir logfile) s
                = Some (1, s') \<and> effects s' = restore_error_log"
  using assms
  by (simp add: run_script_def restore_program_def holds_def restore_error_log_def)

lemma restore_run_backup:
  assumes "effects s = []" and "exists_on h [] ''%backup_dir%''"
    and "backups_on h [] = name # names" and "name \<noteq> []"
  shows "\<exists>s'. run_script (Suc (Suc fuel)) h (restore_program destDir backupDir logfile) s
                = Some (if exit_code h (restore_wipe h) restore_copy = 0 then 0 else 1, s')
              \<and> effects s' = restore_wipe h @ [restore_copy]
                   @ (if exit_code h (restore_wipe h) restore_copy = 0
                      then restore_success_log else restore_error_log)
              \<and> vars s' ''latest_backup'' = Some name"
  using assms
  by (simp add: run_script_def restore_program_def holds_def restore_error_log_def
      restore_success_log_def restore_wipe_def restore_copy_def each_already_defined)

lemma render_error_check:
  "render (error_check done failed)
     = [''if !errorlevel! equ 0 ('', ''echo'' @ done, '') else ('', ''echo'' @ failed,
        ''goto :error'', '')'']"
  by (simp add: error_check_def render_test_def string_of_nat_0)

lemma render_entry:
  "concat (map render (entry_program sourceDir destDir entry)) = entry_commands sourceDir destDir entry"
proof -
  obtain folderName files where e: "entry = (folderName, files)"
    by (cases entry)
  have "concat (map render (concat (map (file_program sourceDir destDir folderName) files)))
      = concat (map (file_commands sourceDir destDir folderName) files)"
    by (induction files) (simp_all add: file_program_def file_commands_def render_error_check)
  then show ?thesis
    by (simp add: e entry_program_def entry_commands_def render_test_def)
qed

lemma render_folder_spec:
  "concat (map render (folder_spec_program sourceDir destDir spec))
     = folder_spec_commands sourceDir destDir spec"
proof (cases spec)
  case (WholeFolder folderSpec)
  then show ?thesis
    by (simp add: whole_folder_program_def whole_folder_commands_def render_error_check)
next
  case (FolderFiles entries)
  have "concat (map render (concat (map (entry_program sourceDir destDir) entries)))
      = concat (map (entry_commands sourceDir destDir) entries)"
    by (induction entries) (simp_all add: render_entry)
  then show ?thesis
    using FolderFiles by simp
qed

lemma render_folder_specs:
  "concat (map render (concat (map (folder_spec_program sourceDir destDir) specs)))
     = concat (map (folder_spec_commands sourceDir destDir) specs)"
  by (induction specs) (simp_all add: render_folder_spec)

lemma render_copy_everything:
  "concat (map render (copy_everything_program sourceDir destDir))
     = copy_everything_commands sourceDir destDir"
  by (simp add: copy_everything_program_def copy_everything_commands_def render_test_def)

lemma render_copy_program:
  "render_script (copy_program sourceDir destDir sourceFolders)
     = generateCopyCommands sourceDir destDir sourceFolders"
proof (cases sourceFolders)
  case None
  then show ?thesis
    by (simp add: render_script_def copy_program_def generateCopyCommands_def render_copy_everything)
next
  case (Some specs)
  then show ?thesis
    using render_folder_specs [of sourceDir destDir specs]
    by (cases specs)
      (simp_all add: render_script_def copy_program_def generateCopyCommands_def
        render_copy_everything)
qed

lemma render_update_head:
  "render_script (update_program_head sourceDir destDir backupDir logfile maxBackups0)
     = update_head sourceDir destDir backupDir logfile maxBackups0"
  by (simp add: render_script_def update_program_head_def update_head_def render_test_def
      render_error_check bar_def)

lemma render_update_tail: "render_script update_program_tail = update_tail"
  by (simp add: render_script_def update_program_tail_def update_tail_def render_test_def
      bar_def string_of_nat_0 string_of_nat_1)

lemma update_program_renders:
  "render_script (update_program path_join staging destination backup sourceFolders)
     = update_lines path_join staging destination backup sourceFolders"
  using render_update_head render_copy_program render_update_tail
  by (simp add: update_program_def update_lines_def Let_def render_script_def)

lemma failed_run_without_selection:
  "outcome_of (run_script 2 failing_copy_host
       (update_program win_join staging_dir destination_dir backup_cfg None) fresh_shell)
     = Some (0, [update_backup_copy, wwwroot_copy, web_config_copy] @ update_success_log)"
  by code_simp

lemma failed_run_with_selection:
  "outcome_of (run_script 2 failing_copy_host
       (update_program win_join staging_dir destination_dir backup_cfg (Some selection)) fresh_shell)
     = Some (1, [update_backup_copy, wwwroot_copy] @ update_error_log)"
  by code_simp

text \<open>
  Claim C1 says that a failed step makes the update script exit with code 1. The script
  that \<open>generateUpdateBat\<close> makes when no folders are selected does otherwise: its copy
  loops have no check of the error level. On a host where the backup of the destination
  succeeds and every copy out of the staging directory fails, that script copies nothing,
  goes on to the rotation and the log, writes \<open>Update completed\<close> and exits with code 0.
  With a selection, the same failure of the first copy ends the script with code 1.
\<close>

theorem update_script_exits_0_after_failed_copy:
  "render_script (update_program win_join staging_dir destination_dir backup_cfg None)
     = update_script_no_selection
   \<and> exit_code failing_copy_host [update_backup_copy] wwwroot_copy = 4
   \<and> exit_code failing_copy_host [update_backup_copy, wwwroot_copy] web_config_copy = 1
   \<and> outcome_of (run_script 2 failing_copy_host
         (update_program win_join staging_dir destination_dir backup_cfg None) fresh_shell)
       = Some (0, [update_backup_copy, wwwroot_copy, web_config_copy] @ update_success_log)
   \<and> outcome_of (run_script 2 failing_copy_host
         (update_program win_join staging_dir destination_dir backup_cfg (Some selection))
         fresh_shell)
       = Some (1, [update_backup_copy, wwwroot_copy] @ update_error_log)"
proof -
  have "exit_code failing_copy_host [update_backup_copy] wwwroot_copy = 4"
    by code_simp
  moreover have "exit_code failing_copy_host [update_backup_copy, wwwroot_copy] web_config_copy = 1"
    by code_simp
  ultimately show ?thesis
    using update_program_renders [of win_join staging_dir destination_dir backup_cfg None]
      failed_run_without_selection failed_run_with_selection
    by (simp add: update_script_no_selection_def)
qed

text \<open>
  Claim C6, for plain paths. The lines of the restore script are the lines of its tree,
  for every configuration. When the paths of the configuration are plain and the script
  starts with nothing done yet: if the backup root does not exist, or holds no
  \<open>backup_*\<close> directory, the script exits with code 1 and all it has done is to append the
  five lines of the error entry to the log: nothing was removed, created or copied. If the
  backup root exists and the listing gives a backup, the script removes the destination
  when it exists, creates it, copies the newest backup (the first name of the listing)
  into it, and exits with code 0 and the log entry of a restore when that copy succeeded,
  with code 1 and the error entry when it failed.
\<close>

theorem restore_script_stops_without_backup:
  "render_script (restore_script path_join staging destination backup)
     = restore_lines path_join staging destination backup
   \<and> (plain (path staging) \<and> plain (path destination) \<and> plain (backup_path backup)
        \<and> effects s = [] \<and> (\<not> exists_on h [] ''%backup_dir%'' \<or> backups_on h [] = [])
      \<longrightarrow> (\<exists>s'. run_script (Suc (Suc fuel)) h (restore_script path_join staging destination backup) s
                   = Some (1, s')
                \<and> effects s' = restore_error_log))
   \<and> (plain (path staging) \<and> plain (path destination) \<and> plain (backup_path backup)
        \<and> effects s = [] \<and> exists_on h [] ''%backup_dir%''
        \<and> backups_on h [] = name # names \<and> name \<noteq> []
      \<longrightarrow> (\<exists>s'. run_script (Suc (Suc fuel)) h (restore_script path_join staging destination backup) s
                   = Some (if exit_code h (restore_wipe h) restore_copy = 0 then 0 else 1, s')
                \<and> effects s' = restore_wipe h @ [restore_copy]
                     @ (if exit_code h (restore_wipe h) restore_copy = 0
                        then restore_success_log else restore_error_log)
                \<and> vars s' ''latest_backup'' = Some name))"
proof (intro conjI impI)
  show "render_script (restore_script path_join staging destination backup)
     = restore_lines path_join staging destination backup"
    unfolding restore_script_def by (rule restore_program_renders)
next
  assume a: "plain (path staging) \<and> plain (path destination) \<and> plain (backup_path backup)
        \<and> effects s = [] \<and> (\<not> exists_on h [] ''%backup_dir%'' \<or> backups_on h [] = [])"
  then have start: "effects s = []"
    by blast
  from a consider "\<not> exists_on h [] ''%backup_dir%''" | "backups_on h [] = []"
    by blast
  then show "\<exists>s'. run_script (Suc (Suc fuel)) h (restore_script path_join staging destination backup) s
                   = Some (1, s')
                \<and> effects s' = restore_error_log"
  proof cases
    case 1
    with start show ?thesis
      unfolding restore_script_def by (rule restore_run_no_folder)
  next
    case 2
    with start show ?thesis
      unfolding restore_script_def by (rule restore_run_no_backup)
  qed
next
  assume a: "plain (path staging) \<and> plain (path destination) \<and> plain (backup_path backup)
        \<and> effects s = [] \<and> exists_on h [] ''%backup_dir%''
        \<and> backups_on h [] = name # names \<and> name \<noteq> []"
  then have "effects s = []" "exists_on h [] ''%backup_dir%''" "backups_on h [] = name # names"
    "name \<noteq> []"
    by blast+
  then show "\<exists>s'. run_script (Suc (Suc fuel)) h (restore_script path_join staging destination backup) s
                   = Some (if exit_code h (restore_wipe h) restore_copy = 0 then 0 else 1, s')
                \<and> effects s' = restore_wipe h @ [restore_copy]
                     @ (if exit_code h (restore_wipe h) restore_copy = 0
                        then restore_success_log else restore_error_log)
                \<and> vars s' ''latest_backup'' = Some name"
    unfolding restore_script_def by (rule restore_run_backup)
qed

theorem restore_script_stops_without_backup_witness:
  "render_script (restore_script win_join staging_dir destination_dir backup_cfg)
     = restore_script_example
   \<and> (\<exists>s'. run_script 2 empty_backups_host
              (restore_script win_join staging_dir destination_dir backup_cfg) fresh_shell
            = Some (1, s')
          \<and> effects s' = restore_error_log)
   \<and> (\<exists>s'. run_script 2 restoring_host
              (restore_script win_join staging_dir destination_dir backup_cfg) fresh_shell
            = Some (0, s')
          \<and> effects s' = [Removed ''%dest_dir%'', Created ''%dest_dir%'', restore_copy]
               @ restore_success_log
          \<and> vars s' ''latest_backup'' = Some ''backup_20240501_100000'')"
proof -
  note inst = restore_script_stops_without_backup
    [where path_join = win_join and staging = staging_dir and destination = destination_dir
      and backup = backup_cfg and s = fresh_shell and fuel = 0]
  have plain: "plain (path staging_dir) \<and> plain (path destination_dir)
      \<and> plain (backup_path backup_cfg)"
    by (simp add: plain_def special_characters_def staging_dir_def destination_dir_def
        backup_cfg_def backslash_def)
  have fresh: "effects fresh_shell = []"
    by (simp add: fresh_shell_def)
  have none: "backups_on empty_backups_host [] = []"
    by (simp add: empty_backups_host_def)
  have some: "exists_on restoring_host [] ''%backup_dir%''
      \<and> backups_on restoring_host [] = ''backup_20240501_100000'' # [''backup_20240401_100000'']
      \<and> ''backup_20240501_100000'' \<noteq> []"
    by (simp add: restoring_host_def)
  have wipe: "restore_wipe restoring_host = [Removed ''%dest_dir%'', Created ''%dest_dir%'']"
    by (simp add: restore_wipe_def restoring_host_def)
  have ok: "exit_code restoring_host (restore_wipe restoring_host) restore_copy = 0"
    by (simp add: restoring_host_def)
  have lines: "render_script (restore_script win_join staging_dir destination_dir backup_cfg)
      = restore_script_example"
    using inst [of empty_backups_host] by (simp add: restore_script_example_def)
  have stop: "\<exists>s'. run_script 2 empty_backups_host
              (restore_script win_join staging_dir destination_dir backup_cfg) fresh_shell
            = Some (1, s')
          \<and> effects s' = restore_error_log"
    using inst [of empty_backups_host] plain fresh none by (simp add: numeral_2_eq_2)
  have go: "\<exists>s'. run_script 2 restoring_host
              (restore_script win_join staging_dir destination_dir backup_cfg) fresh_shell
            = Some (0, s')
          \<and> effects s' = [Removed ''%dest_dir%'', Created ''%dest_dir%'', restore_copy]
               @ restore_success_log
          \<and> vars s' ''latest_backup'' = Some ''backup_20240501_100000''"
    using inst [of restoring_host "''backup_20240501_100000''" "[''backup_20240401_100000'']"]
      plain fresh some wipe ok
    by (simp add: numeral_2_eq_2)
  show ?thesis
    using lines stop go by blast
qed

text \<open>
  The backup path \<^verbatim>\<open>C:\b" & rd /s /q "C:\app\<close> is not plain, and the script made for it is
  not what its tree says: the fifth line sets \<open>backup_dir\<close> and then removes the
  destination, before any backup has been looked for.
\<close>

theorem restore_script_wipes_first_with_quote_in_path:
  \<open>\<not> plain (backup_path hostile_backup)
   \<and> restore_lines win_join staging_dir destination_dir hostile_backup ! 4
       = ''set "backup_dir=C:'' @ backslash @ ''b" & rd /s /q "C:'' @ backslash @ ''app"''
   \<and> commands_of_line (restore_lines win_join staging_dir destination_dir hostile_backup ! 4)
       = [''set "backup_dir=C:'' @ backslash @ ''b" '', '' rd /s /q "C:'' @ backslash @ ''app"'']
   \<and> path destination_dir = ''C:'' @ backslash @ ''app''\<close>
  by (simp add: plain_def special_characters_def hostile_backup_def restore_lines_def Let_def
      commands_of_line_def backslash_def destination_dir_def)


subsection \<open>Directory trees\<close>
lemma lookup_append: "lookup t p = Some s \<Longrightarrow> lookup t (p @ q) = lookup s q"
  by (induction t p rule: lookup.induct) (auto split: option.splits)

lemma lookup_del_child:
  "lookup t p = Some (Dir es) \<Longrightarrow> lookup (del_path (p @ [n]) t) p = Some (Dir (AList.delete n es))"
proof (induction p arbitrary: t)
  case Nil
  then show ?case by simp
next
  case (Cons a p)
  then show ?case
    by (cases t; cases p) (auto simp: update_conv' split: option.splits)
qed

lemma lookup_fold_del:
  "lookup t p = Some (Dir es)
   \<Longrightarrow> lookup (fold (\<lambda>n. del_path (p @ [n])) ns t) p
       = Some (Dir (filter (\<lambda>e. fst e \<notin> set ns) es))"
proof (induction ns arbitrary: t es)
  case Nil
  then show ?case by simp
next
  case (Cons n ns)
  have "lookup (del_path (p @ [n]) t) p = Some (Dir (AList.delete n es))"
    using Cons.prems by (rule lookup_del_child)
  from Cons.IH [OF this] have "lookup (fold (\<lambda>n. del_path (p @ [n])) (n # ns) t) p
       = Some (Dir (filter (\<lambda>e. fst e \<notin> set ns) (AList.delete n es)))"
    by simp
  moreover have "filter (\<lambda>e. fst e \<notin> set ns) (AList.delete n es)
      = filter (\<lambda>e. fst e \<notin> set (n # ns)) es"
    by (induction es) (auto simp: AList.delete_eq)
  ultimately show ?case by simp
qed

lemma size_child: "(n, c) \<in> set es \<Longrightarrow> size c < size (Dir es)"
  by (induction es) auto

lemma wf_entries_iff: "wf_entries es = (\<forall>e\<in>set es. wf_node (snd e))"
  by (induction es) auto

lemma del_child_then_dir:
  "p \<noteq> [] \<Longrightarrow> del_path p (del_path (p @ [n]) t) = del_path p t"
proof (induction p arbitrary: t)
  case Nil
  then show ?case by simp
next
  case (Cons a p)
  show ?case
  proof (cases p)
    case Nil
    then show ?thesis
      by (cases t) (auto simp: delete_update_same split: option.splits)
  next
    case (Cons b q)
    with Cons.IH [of ] show ?thesis
      by (cases t) (auto simp: update_conv' split: option.splits)
  qed
qed

lemma del_children_then_dir:
  "p \<noteq> [] \<Longrightarrow> del_path p (fold (\<lambda>n. del_path (p @ [n])) ns t) = del_path p t"
  by (induction ns arbitrary: t) (simp_all add: del_child_then_dir)

lemma lookup_child: "lookup t p = Some (Dir es) \<Longrightarrow> lookup t (p @ [n]) = map_of es n"
  by (simp add: lookup_append split: option.splits)

lemma deleteDir_files_ok:
  assumes dd: "\<And>r q cs. lookup r q = Some (Dir cs) \<Longrightarrow> wf_node (Dir cs) \<Longrightarrow> q \<noteq> []
          \<Longrightarrow> size (Dir cs) \<le> k \<Longrightarrow> deleteDir k r q = Some (del_path q r, Inr ())"
  shows "lookup r p = Some (Dir es) \<Longrightarrow> distinct ns
     \<Longrightarrow> (\<And>n. n \<in> set ns \<Longrightarrow> \<exists>c. map_of es n = Some c \<and> wf_node c \<and> size c \<le> k)
     \<Longrightarrow> deleteDir_files k r p ns = Some (fold (\<lambda>n. del_path (p @ [n])) ns r, Inr ())"
proof (induction ns arbitrary: r es)
  case Nil
  then show ?case by simp
next
  case (Cons n ns)
  from Cons.prems(3) [of n] obtain c where c: "map_of es n = Some c" "wf_node c" "size c \<le> k"
    by auto
  have st: "stat r (p @ [n]) = Some c"
    using Cons.prems(1) c(1) by (simp add: stat_def lookup_child)
  have first: "(if is_dir (stat r (p @ [n])) then deleteDir k r (p @ [n])
            else (case deleteFile r (p @ [n]) of
                    Inl e \<Rightarrow> Some (r, Inl e)
                  | Inr r1 \<Rightarrow> Some (r1, Inr ())))
        = Some (del_path (p @ [n]) r, Inr ())"
  proof (cases c)
    case (File x)
    then show ?thesis
      using st by (simp add: deleteFile_def stat_def)
  next
    case (Dir cs)
    have "deleteDir k r (p @ [n]) = Some (del_path (p @ [n]) r, Inr ())"
      using dd [of r "p @ [n]" cs] st c(2,3) Dir by (simp add: stat_def)
    then show ?thesis
      using st Dir by simp
  qed
  have next_dir: "lookup (del_path (p @ [n]) r) p = Some (Dir (AList.delete n es))"
    using Cons.prems(1) by (rule lookup_del_child)
  have rest: "\<And>m. m \<in> set ns \<Longrightarrow>
      \<exists>c. map_of (AList.delete n es) m = Some c \<and> wf_node c \<and> size c \<le> k"
  proof -
    fix m assume m: "m \<in> set ns"
    then have "m \<noteq> n" using Cons.prems(2) by auto
    then have "map_of (AList.delete n es) m = map_of es m"
      by (simp add: delete_conv')
    then show "\<exists>c. map_of (AList.delete n es) m = Some c \<and> wf_node c \<and> size c \<le> k"
      using Cons.prems(3) [of m] m by simp
  qed
  have "deleteDir_files k (del_path (p @ [n]) r) p ns
      = Some (fold (\<lambda>n. del_path (p @ [n])) ns (del_path (p @ [n]) r), Inr ())"
    using Cons.IH [OF next_dir _ rest] Cons.prems(2) by simp
  then show ?case
    using first by simp
qed

lemma children_ok:
  assumes "wf_node (Dir es)" and "size (Dir es) \<le> Suc k" and "n \<in> set (map fst es)"
  shows "\<exists>c. map_of es n = Some c \<and> wf_node c \<and> size c \<le> k"
proof -
  from assms(3) obtain c where in_es: "(n, c) \<in> set es" by auto
  have "distinct (map fst es)" using assms(1) by simp
  then have "map_of es n = Some c" using in_es by simp
  moreover have "wf_node c" using assms(1) in_es by (auto simp: wf_entries_iff)
  moreover have "size c \<le> k" using size_child [OF in_es] assms(2) by simp
  ultimately show ?thesis by blast
qed

lemma deleteDir_ok:
  "lookup r q = Some (Dir cs) \<Longrightarrow> wf_node (Dir cs) \<Longrightarrow> q \<noteq> [] \<Longrightarrow> size (Dir cs) \<le> k
   \<Longrightarrow> deleteDir k r q = Some (del_path q r, Inr ())"
proof (induction k arbitrary: r q cs)
  case 0
  then show ?case by simp
next
  case (Suc k)
  have names: "readDir r q = Inr (map fst cs)"
    using Suc.prems(1) by (simp add: readDir_def)
  have loop: "deleteDir_files k r q (map fst cs)
      = Some (fold (\<lambda>n. del_path (q @ [n])) (map fst cs) r, Inr ())"
  proof (rule deleteDir_files_ok [OF _ Suc.prems(1)])
    show "distinct (map fst cs)" using Suc.prems(2) by simp
    show "\<And>n. n \<in> set (map fst cs) \<Longrightarrow> \<exists>c. map_of cs n = Some c \<and> wf_node c \<and> size c \<le> k"
      using children_ok [OF Suc.prems(2) Suc.prems(4)] by blast
    show "\<And>r q cs. lookup r q = Some (Dir cs) \<Longrightarrow> wf_node (Dir cs) \<Longrightarrow> q \<noteq> []
          \<Longrightarrow> size (Dir cs) \<le> k \<Longrightarrow> deleteDir k r q = Some (del_path q r, Inr ())"
      using Suc.IH by blast
  qed
  let ?r1 = "fold (\<lambda>n. del_path (q @ [n])) (map fst cs) r"
  have "lookup ?r1 q = Some (Dir (filter (\<lambda>e. fst e \<notin> set (map fst cs)) cs))"
    using Suc.prems(1) by (rule lookup_fold_del)
  then have empty: "lookup ?r1 q = Some (Dir [])"
    by (simp add: filter_empty_conv)
  have "rmdir ?r1 q = Inr (del_path q ?r1)"
    using empty Suc.prems(3) by (simp add: rmdir_def)
  then have "rmdir ?r1 q = Inr (del_path q r)"
    using Suc.prems(3) by (simp add: del_children_then_dir)
  then show ?case
    using names loop by simp
qed

lemma deleteLocalContents_dir:
  "lookup l p = Some (Dir es)
   \<Longrightarrow> deleteLocalContents l p = (fold (\<lambda>n. del_path (p @ [n])) (map fst es) l, Inr ())"
  by (simp add: deleteLocalContents_def pathExists_def readdir_def remove_def fold_map comp_def)

lemma deleteSSHContents_dir:
  assumes "lookup r p = Some (Dir es)" and "wf_node (Dir es)" and "size (Dir es) \<le> fuel"
  shows "deleteSSHContents fuel r p = Some (fold (\<lambda>n. del_path (p @ [n])) (map fst es) r, Inr ())"
proof -
  have "deleteDir_files fuel r p (map fst es)
      = Some (fold (\<lambda>n. del_path (p @ [n])) (map fst es) r, Inr ())"
  proof (rule deleteDir_files_ok [OF _ assms(1)])
    show "distinct (map fst es)" using assms(2) by simp
    show "\<And>n. n \<in> set (map fst es) \<Longrightarrow> \<exists>c. map_of es n = Some c \<and> wf_node c \<and> size c \<le> fuel"
      using children_ok [OF assms(2), of fuel] assms(3) by fastforce
    show "\<And>r q cs. lookup r q = Some (Dir cs) \<Longrightarrow> wf_node (Dir cs) \<Longrightarrow> q \<noteq> []
          \<Longrightarrow> size (Dir cs) \<le> fuel \<Longrightarrow> deleteDir fuel r q = Some (del_path q r, Inr ())"
      by (rule deleteDir_ok)
  qed
  then show ?thesis
    using assms(1) by (simp add: deleteSSHContents_def readDir_def)
qed

lemma all_children_gone:
  "lookup t p = Some (Dir es)
   \<Longrightarrow> lookup (fold (\<lambda>n. del_path (p @ [n])) (map fst es) t) p = Some (Dir [])"
  using lookup_fold_del [of t p es "map fst es"] by (simp add: filter_empty_conv)

text \<open>
  Claim C8. When the root of a location is a directory, \<open>deleteContents\<close> removes each
  of its immediate children, files and subdirectories alike, and the root stays, now empty;
  nothing else in the tree changes (the result is the tree with exactly the paths of the
  children deleted). When the root does not exist or is already empty, \<open>deleteContents\<close>
  returns without error and leaves the world as it was; so a second call changes nothing.
  On a remote host the recursion of \<open>deleteDir\<close> needs fuel for the size of the
  directory, and its names are distinct in each directory.
\<close>

theorem deleteContents_empties_root:
  "(lookup (tree_of w location) (path location) = Some (Dir es)
      \<and> (type location = Local
          \<or> ssh location \<noteq> None \<and> wf_node (Dir es) \<and> size (Dir es) \<le> fuel)
    \<longrightarrow> (\<exists>t'. deleteContents fuel w location = Some (set_tree w location t', Inr ())
            \<and> t' = fold (\<lambda>n. del_path (path location @ [n])) (map fst es) (tree_of w location)
            \<and> lookup t' (path location) = Some (Dir [])))
   \<and> ((lookup (tree_of w location) (path location) = None
        \<or> lookup (tree_of w location) (path location) = Some (Dir []))
       \<and> (type location = Local \<or> ssh location \<noteq> None)
    \<longrightarrow> deleteContents fuel w location = Some (w, Inr ()))"
proof (intro conjI impI)
  assume a: "lookup (tree_of w location) (path location) = Some (Dir es)
      \<and> (type location = Local
          \<or> ssh location \<noteq> None \<and> wf_node (Dir es) \<and> size (Dir es) \<le> fuel)"
  let ?t' = "fold (\<lambda>n. del_path (path location @ [n])) (map fst es) (tree_of w location)"
  have gone: "lookup ?t' (path location) = Some (Dir [])"
    using a all_children_gone by blast
  have "deleteContents fuel w location = Some (set_tree w location ?t', Inr ())"
  proof (cases "type location")
    case Local
    then show ?thesis
      using a deleteLocalContents_dir [of "local_fs w" "path location" es]
      by (simp add: deleteContents_def tree_of_def set_tree_def)
  next
    case SSH
    then have "deleteSSHContents fuel (remote_fs w) (path location)
        = Some (?t', Inr ())"
      using a deleteSSHContents_dir [of "remote_fs w" "path location" es fuel]
      by (simp add: tree_of_def)
    then show ?thesis
      using a SSH by (simp add: deleteContents_def set_tree_def connected_def)
  qed
  then show "\<exists>t'. deleteContents fuel w location = Some (set_tree w location t', Inr ())
            \<and> t' = fold (\<lambda>n. del_path (path location @ [n])) (map fst es) (tree_of w location)
            \<and> lookup t' (path location) = Some (Dir [])"
    using gone by blast
next
  assume b: "(lookup (tree_of w location) (path location) = None
        \<or> lookup (tree_of w location) (path location) = Some (Dir []))
       \<and> (type location = Local \<or> ssh location \<noteq> None)"
  show "deleteContents fuel w location = Some (w, Inr ())"
  proof (cases "type location")
    case Local
    then show ?thesis
      using b by (auto simp: deleteContents_def deleteLocalContents_def pathExists_def
          readdir_def tree_of_def)
  next
    case SSH
    then show ?thesis
      using b by (auto simp: deleteContents_def deleteSSHContents_def readDir_def
          tree_of_def connected_def)
  qed
qed

lemma app_children:
  "lookup app_tree [''srv'', ''app'']
     = Some (Dir [(''index.html'', File ''<html>''), (''web.config'', File ''<configuration>''),
             (''bin'', Dir [(''app.dll'', File ''MZ''), (''app.xml'', File ''<doc>'')]),
             (''logs'', Dir []), (''favicon.ico'', File ''ico'')])"
  by (simp add: app_tree_def)

theorem deleteContents_empties_root_witness:
  "deleteContents 0 app_world local_app = Some (app_world\<lparr>local_fs := emptied_tree\<rparr>, Inr ())
   \<and> deleteContents 17 app_world remote_app = Some (app_world\<lparr>remote_fs := emptied_tree\<rparr>, Inr ())
   \<and> lookup emptied_tree [''srv'', ''app''] = Some (Dir [])
   \<and> deleteContents 0 (app_world\<lparr>local_fs := emptied_tree\<rparr>) local_app
       = Some (app_world\<lparr>local_fs := emptied_tree\<rparr>, Inr ())
   \<and> deleteContents 0 (app_world\<lparr>remote_fs := emptied_tree\<rparr>) remote_app
       = Some (app_world\<lparr>remote_fs := emptied_tree\<rparr>, Inr ())"
proof -
  let ?es = "[(''index.html'', File ''<html>''), (''web.config'', File ''<configuration>''),
             (''bin'', Dir [(''app.dll'', File ''MZ''), (''app.xml'', File ''<doc>'')]),
             (''logs'', Dir []), (''favicon.ico'', File ''ico'')]"
  have gone: "fold (\<lambda>n. del_path ([''srv'', ''app''] @ [n])) (map fst ?es) app_tree = emptied_tree"
    by (simp add: app_tree_def emptied_tree_def)
  have wf: "wf_node (Dir ?es)"
    by simp
  have sz: "size (Dir ?es) \<le> 17"
    by simp
  have l: "deleteContents 0 app_world local_app = Some (app_world\<lparr>local_fs := emptied_tree\<rparr>, Inr ())"
    using deleteContents_empties_root [of app_world local_app ?es 0] app_children gone
    by (simp add: tree_of_def set_tree_def local_app_def app_world_def)
  have r: "deleteContents 17 app_world remote_app = Some (app_world\<lparr>remote_fs := emptied_tree\<rparr>, Inr ())"
    using deleteContents_empties_root [of app_world remote_app ?es 17] app_children gone wf sz
    by (simp add: tree_of_def set_tree_def remote_app_def app_world_def)
  have e: "lookup emptied_tree [''srv'', ''app''] = Some (Dir [])"
    by (simp add: emptied_tree_def)
  have l2: "deleteContents 0 (app_world\<lparr>local_fs := emptied_tree\<rparr>) local_app
       = Some (app_world\<lparr>local_fs := emptied_tree\<rparr>, Inr ())"
    using deleteContents_empties_root [of "app_world\<lparr>local_fs := emptied_tree\<rparr>" local_app "[]" 0] e
    by (simp add: tree_of_def set_tree_def local_app_def)
  have r2: "deleteContents 0 (app_world\<lparr>remote_fs := emptied_tree\<rparr>) remote_app
       = Some (app_world\<lparr>remote_fs := emptied_tree\<rparr>, Inr ())"
    using deleteContents_empties_root [of "app_world\<lparr>remote_fs := emptied_tree\<rparr>" remote_app "[]" 0] e
    by (simp add: tree_of_def set_tree_def remote_app_def)
  show ?thesis
    using l r e l2 r2 by simp
qed

lemma add_count_failed:
  "step = Some (w1, Inl e) \<Longrightarrow> add_count step rest = Some (w1, Inl e)"
  by (simp add: add_count_def)








lemma file_missing:
  "exists_at w (source\<lparr>path := sf @ [file]\<rparr>) = Inr False
   \<Longrightarrow> copy_each_file w source dest sf df (file # files)
       = (w, Inl (SourceFileDoesNotExist (sf @ [file])))"
  by simp














lemma tree_of_path [simp]: "tree_of w (location\<lparr>path := q\<rparr>) = tree_of w location"
  by (simp add: tree_of_def)














subsection \<open>Copying a selection\<close>






































subsection \<open>The copy strategies and the directories of the destination\<close>





end
